theory Spec2Isabelle
  imports Main "HOL-Library.Sublist"
begin

section \<open>Values exchanged with the outside world\<close>

text \<open>
  The program is a pipeline of network calls: the company registry, the document
  store, a generative-AI provider and a web search.  Every such call is a parameter of
  the model; the program's own branching is translated line by line.

  JavaScript values are modelled by their shape at the interface: an optional string
  is \<open>string option\<close> (\<open>None\<close> is \<open>undefined\<close>), a JSON object whose properties
  are strings is a map from property names to strings, an exception is the left
  injection of a sum carrying \<open>error.message\<close>.
\<close>

type_synonym obj = "string \<rightharpoonup> string"

definition truthy :: "string option \<Rightarrow> bool" where
  "truthy v = (case v of None \<Rightarrow> False | Some s \<Rightarrow> s \<noteq> [])"

definition orEmpty :: "string option \<Rightarrow> string" where
  "orEmpty v = (case v of None \<Rightarrow> [] | Some s \<Rightarrow> s)"

fun str_includes :: "string \<Rightarrow> string \<Rightarrow> bool" where
  "str_includes [] sub = (sub = [])"
| "str_includes (c # cs) sub = (prefix sub (c # cs) \<or> str_includes cs sub)"

text \<open>
  A request header.  \<open>Authorization k\<close> stands for the header
  \<open>Authorization: Basic base64(k)\<close>; the encoding is injective, so the header is
  identified with the text it encodes.
\<close>

datatype header =
    Authorization string
  | Accept string
  | XTargetUrl string
  | XApiKey string
  | ContentType string

datatype redirect = follow | manual

text \<open>
  The calls the program makes, in the order it makes them, are its trace.
  \<open>Fetch url headers mode\<close> is a GET, \<open>Post url headers payload\<close> a POST whose payload is
  the prompt and the inline document, \<open>GenerateContent model inlineData prompt schema\<close>
  a call of the AI client, \<open>Search q\<close> a web search.
\<close>

datatype call =
    Fetch string "header list" redirect
  | Post string "header list" string string
  | GenerateContent string "string option" string "string list"
  | Search string

record 'a response =
  status :: nat
  statusText :: string
  location :: "string option"
  body :: "string + 'a"

definition ok :: "'a response \<Rightarrow> bool" where
  "ok r = (200 \<le> status r \<and> status r \<le> 299)"

text \<open>
  An endpoint answers the last call of the trace it is given, and may depend on every
  call before it.  \<open>Inl m\<close> is a rejected promise with message \<open>m\<close>.
\<close>

type_synonym 'a endpoint = "call list \<Rightarrow> string + 'a"

record company =
  company_name :: "string option"
  company_number :: "string option"

record item_links =
  document_metadata :: "string option"

record item =
  category :: string
  description :: "string option"
  links :: "item_links option"

record 'a listing =
  items :: "'a list option"

text \<open>\<open>data.items || []\<close>\<close>

definition itemsOf :: "'a listing \<Rightarrow> 'a list" where
  "itemsOf d = (case items d of None \<Rightarrow> [] | Some xs \<Rightarrow> xs)"

record officer =
  name :: "string option"
  officer_role :: string

record search_result =
  url :: "string option"

record search_results =
  results :: "search_result list option"

text \<open>
  The text of an AI reply, by what \<open>JSON.parse(response.text || "{}")\<close> makes of it:
  no text, text that does not parse, or an object.  The provider is called with
  \<open>responseMimeType: "application/json"\<close> and a schema of type OBJECT whose properties
  are of type STRING, none of them required; a text that parses to anything but such an
  object (\<open>null\<close>, a number, an array) is against that schema and has no case here.
\<close>

datatype ai_text = NoText | NotJson string | JsonObject obj

definition parseText :: "ai_text \<Rightarrow> string + obj" where
  "parseText t = (case t of NoText \<Rightarrow> Inr Map.empty | NotJson m \<Rightarrow> Inl m | JsonObject d \<Rightarrow> Inr d)"

record world =
  companyEndpoint :: "company response endpoint"
  filingEndpoint :: "item listing response endpoint"
  officersEndpoint :: "officer listing response endpoint"
  documentEndpoint :: "string response endpoint"
  generateContent :: "ai_text endpoint"
  search :: "search_results endpoint"

section \<open>server.ts: the handler of POST /api/extract\<close>

record row =
  companyName :: "string option"
  companyNumber :: "string option"
  directorName :: "string option"
  ethnicity :: "string option"
  totalAssets :: "string option"
  odla :: "string option"
  totalDeficiency :: "string option"
  bblCbils :: "string option"
  hmrcPreferential :: "string option"
  hmrcUnsecured :: "string option"
  tradeCreditors :: "string option"
  accountantFirmName :: "string option"
  accountantUrl :: "string option"

datatype reply = Status400 string | Status500 string | Json row

definition registry :: string where
  "registry = ''https://api.company-information.service.gov.uk''"

subsection \<open>Document sorting (lines 52-55)\<close>

definition isSoa :: "item \<Rightarrow> bool" where
  "isSoa it = (category it = ''insolvency'' \<and>
     (case description it of None \<Rightarrow> False | Some d \<Rightarrow> str_includes d ''statement-of-affairs''))"

definition soaItem :: "item list \<Rightarrow> item option" where
  "soaItem its = List.find isSoa its"

definition accountItems :: "item list \<Rightarrow> item list" where
  "accountItems its = take 3 (filter (\<lambda>it. category it = ''accounts'') its)"

text \<open>\<open>x.links?.document_metadata\<close>, as the guards read it: a non-empty string or nothing.\<close>

definition documentLink :: "item \<Rightarrow> string option" where
  "documentLink it =
     (case links it of
        None \<Rightarrow> None
      | Some l \<Rightarrow> (case document_metadata l of
                    None \<Rightarrow> None
                  | Some u \<Rightarrow> if u = [] then None else Some u))"

subsection \<open>downloadPdf (lines 57-69)\<close>

definition downloadPdf :: "world \<Rightarrow> string \<Rightarrow> call list \<Rightarrow> string \<Rightarrow> call list \<times> (string + string)" where
  "downloadPdf w chApiKey tr documentMetadataUrl =
     (let tr1 = tr @ [Fetch documentMetadataUrl
                        [Authorization (chApiKey @ '':''), Accept ''application/pdf''] follow]
      in case documentEndpoint w tr1 of
           Inl e \<Rightarrow> (tr1, Inl e)
         | Inr res \<Rightarrow>
             if \<not> ok res then (tr1, Inl (''Failed to download PDF: '' @ statusText res))
             else (tr1, body res))"

subsection \<open>Primary extraction (lines 72-114)\<close>

definition soaPrompt :: string where
  "soaPrompt = ''Extract Total Assets (estimated to realise), ODLA, Total Deficiency, BBL/CBILS, HMRC Preferential, HMRC Unsecured, Trade Creditors, and the Accountant Firm Name. Return as JSON.''"

definition soaSchema :: "string list" where
  "soaSchema = [''totalAssets'', ''odla'', ''totalDeficiency'', ''bblCbils'',
     ''hmrcPreferential'', ''hmrcUnsecured'', ''tradeCreditors'', ''accountantFirmName'']"

text \<open>The body of the \<open>try\<close> block: what it assigns to \<open>extractedData\<close>, or what it throws.\<close>

definition soaTry :: "world \<Rightarrow> string \<Rightarrow> call list \<Rightarrow> string \<Rightarrow> call list \<times> (string + obj)" where
  "soaTry w chApiKey tr u =
     (case downloadPdf w chApiKey tr u of
        (tr1, Inl e) \<Rightarrow> (tr1, Inl e)
      | (tr1, Inr soaPdfBase64) \<Rightarrow>
          (let tr2 = tr1 @ [GenerateContent ''gemini-3.1-pro-preview'' (Some soaPdfBase64) soaPrompt soaSchema]
           in case generateContent w tr2 of
                Inl e \<Rightarrow> (tr2, Inl e)
              | Inr t \<Rightarrow> (tr2, parseText t)))"

definition primaryPass :: "world \<Rightarrow> string \<Rightarrow> call list \<Rightarrow> item option \<Rightarrow> call list \<times> obj" where
  "primaryPass w chApiKey tr soa =
     (case soa of
        None \<Rightarrow> (tr, Map.empty)
      | Some it \<Rightarrow>
          (case documentLink it of
             None \<Rightarrow> (tr, Map.empty)
           | Some u \<Rightarrow>
               (case soaTry w chApiKey tr u of
                  (tr1, Inl e) \<Rightarrow> (tr1, Map.empty)
                | (tr1, Inr extractedData) \<Rightarrow> (tr1, extractedData))))"

subsection \<open>Fallback extraction (lines 116-157)\<close>

definition accPrompt :: string where
  "accPrompt = ''Extract the Accountant Firm Name from this document. Return as JSON.''"

definition accTry :: "world \<Rightarrow> string \<Rightarrow> call list \<Rightarrow> string \<Rightarrow> call list \<times> (string + obj)" where
  "accTry w chApiKey tr u =
     (case downloadPdf w chApiKey tr u of
        (tr1, Inl e) \<Rightarrow> (tr1, Inl e)
      | (tr1, Inr accPdfBase64) \<Rightarrow>
          (let tr2 = tr1 @ [GenerateContent ''gemini-2.5-flash'' (Some accPdfBase64) accPrompt [''accountantFirmName'']]
           in case generateContent w tr2 of
                Inl e \<Rightarrow> (tr2, Inl e)
              | Inr t \<Rightarrow> (tr2, parseText t)))"

text \<open>
  One candidate of the \<open>for\<close> loop: the trace after it, and the firm name when the
  candidate ends the loop (\<open>break\<close>).  A candidate without a link does nothing; an
  exception of the \<open>try\<close> block is caught and the loop goes on.
\<close>

definition accCandidate :: "world \<Rightarrow> string \<Rightarrow> call list \<Rightarrow> item \<Rightarrow> call list \<times> string option" where
  "accCandidate w chApiKey tr accItem =
     (case documentLink accItem of
        None \<Rightarrow> (tr, None)
      | Some u \<Rightarrow>
          (case accTry w chApiKey tr u of
             (tr1, Inl e) \<Rightarrow> (tr1, None)
           | (tr1, Inr accData) \<Rightarrow>
               if truthy (accData ''accountantFirmName'')
               then (tr1, accData ''accountantFirmName'')
               else (tr1, None)))"

fun fallbackLoop :: "world \<Rightarrow> string \<Rightarrow> item list \<Rightarrow> call list \<times> obj \<Rightarrow> call list \<times> obj" where
  "fallbackLoop w chApiKey [] s = s"
| "fallbackLoop w chApiKey (accItem # rest) (tr, extractedData) =
     (case accCandidate w chApiKey tr accItem of
        (tr1, Some v) \<Rightarrow> (tr1, extractedData(''accountantFirmName'' \<mapsto> v))
      | (tr1, None) \<Rightarrow> fallbackLoop w chApiKey rest (tr1, extractedData))"

definition fallbackPass :: "world \<Rightarrow> string \<Rightarrow> item list \<Rightarrow> call list \<times> obj \<Rightarrow> call list \<times> obj" where
  "fallbackPass w chApiKey accs s =
     (if \<not> truthy (snd s ''accountantFirmName'') \<and> length accs > 0
      then fallbackLoop w chApiKey accs s else s)"

subsection \<open>Registry lookups (lines 14-50)\<close>

definition fetchCompany :: "world \<Rightarrow> string \<Rightarrow> string \<Rightarrow> call list \<times> (string + company)" where
  "fetchCompany w companyNo chApiKey =
     (let tr1 = [Fetch (registry @ ''/company/'' @ companyNo) [Authorization (chApiKey @ '':'')] follow]
      in case companyEndpoint w tr1 of
           Inl e \<Rightarrow> (tr1, Inl e)
         | Inr companyRes \<Rightarrow>
             if \<not> ok companyRes
             then (tr1, Inl (''Failed to fetch company details: '' @ statusText companyRes))
             else (tr1, body companyRes))"

definition fetchFilingHistory ::
  "world \<Rightarrow> string \<Rightarrow> string \<Rightarrow> call list \<Rightarrow> call list \<times> (string + item listing)" where
  "fetchFilingHistory w companyNo chApiKey tr =
     (let tr1 = tr @ [Fetch (registry @ ''/company/'' @ companyNo @ ''/filing-history?items_per_page=100'')
                        [Authorization (chApiKey @ '':'')] follow]
      in case filingEndpoint w tr1 of
           Inl e \<Rightarrow> (tr1, Inl e)
         | Inr filingRes \<Rightarrow>
             if \<not> ok filingRes
             then (tr1, Inl (''Failed to fetch filing history: '' @ statusText filingRes))
             else (tr1, body filingRes))"

text \<open>
  The officers lookup gives the value of \<open>directorName\<close>, or what it throws.  The
  variable starts as the empty string; line 48 copies \<open>director.name\<close> as it is, so a
  director without a name leaves it \<open>undefined\<close>.
\<close>

definition fetchOfficers ::
  "world \<Rightarrow> string \<Rightarrow> string \<Rightarrow> call list \<Rightarrow> call list \<times> (string + string option)" where
  "fetchOfficers w companyNo chApiKey tr =
     (let tr1 = tr @ [Fetch (registry @ ''/company/'' @ companyNo @ ''/officers'')
                        [Authorization (chApiKey @ '':'')] follow]
      in case officersEndpoint w tr1 of
           Inl e \<Rightarrow> (tr1, Inl e)
         | Inr officersRes \<Rightarrow>
             if ok officersRes
             then (case body officersRes of
                     Inl e \<Rightarrow> (tr1, Inl e)
                   | Inr officersData \<Rightarrow>
                       (case (case items officersData of
                                None \<Rightarrow> None
                              | Some os \<Rightarrow> List.find (\<lambda>x. officer_role x = ''director'') os) of
                          None \<Rightarrow> (tr1, Inr (Some []))
                        | Some director \<Rightarrow> (tr1, Inr (name director))))
             else (tr1, Inr (Some [])))"

subsection \<open>Demographic inference and web search (lines 159-191)\<close>

definition ethnicityPrompt :: "string \<Rightarrow> string" where
  "ethnicityPrompt dName =
     ''Guess the broad ethnicity based on onomastics for the name: '' @ dName @
     ''. Return as JSON with a single property '' @ [CHR 0x27] @ ''ethnicity'' @ [CHR 0x27] @ ''.''"

definition ethnicityStage :: "world \<Rightarrow> call list \<Rightarrow> string option \<Rightarrow> call list \<times> string option" where
  "ethnicityStage w tr dName =
     (if truthy dName
      then (let tr1 = tr @ [GenerateContent ''gemini-2.5-flash'' None (ethnicityPrompt (orEmpty dName)) [''ethnicity'']]
            in case generateContent w tr1 of
                 Inl e \<Rightarrow> (tr1, Some [])
               | Inr t \<Rightarrow> (case parseText t of
                             Inl e \<Rightarrow> (tr1, Some [])
                           | Inr d \<Rightarrow> (tr1, d ''ethnicity'')))
      else (tr, Some []))"

text \<open>Line 186 copies \<open>results[0].url\<close> as it is.\<close>

definition webSearchStage :: "world \<Rightarrow> call list \<Rightarrow> obj \<Rightarrow> call list \<times> string option" where
  "webSearchStage w tr extractedData =
     (if truthy (extractedData ''accountantFirmName'')
      then (let tr1 = tr @ [Search (orEmpty (extractedData ''accountantFirmName'') @ '' UK'')]
            in case search w tr1 of
                 Inl e \<Rightarrow> (tr1, Some [])
               | Inr searchResults \<Rightarrow>
                   (case results searchResults of
                      None \<Rightarrow> (tr1, Some [])
                    | Some [] \<Rightarrow> (tr1, Some [])
                    | Some (r # rs) \<Rightarrow> (tr1, url r)))
      else (tr, Some []))"

subsection \<open>The handler\<close>

text \<open>Lines 52-208: everything after the three registry lookups.\<close>

definition afterLookups ::
  "world \<Rightarrow> string \<Rightarrow> call list \<Rightarrow> company \<Rightarrow> item listing \<Rightarrow> string option \<Rightarrow> call list \<times> reply" where
  "afterLookups w chApiKey tr companyData filingData dName =
     (let its = itemsOf filingData;
          p = primaryPass w chApiKey tr (soaItem its);
          f = fallbackPass w chApiKey (accountItems its) p;
          extractedData = snd f;
          e = ethnicityStage w (fst f) dName;
          s = webSearchStage w (fst e) extractedData
      in (fst s,
          Json \<lparr> companyName = company_name companyData,
                 companyNumber = company_number companyData,
                 directorName = dName,
                 ethnicity = snd e,
                 totalAssets = Some (orEmpty (extractedData ''totalAssets'')),
                 odla = Some (orEmpty (extractedData ''odla'')),
                 totalDeficiency = Some (orEmpty (extractedData ''totalDeficiency'')),
                 bblCbils = Some (orEmpty (extractedData ''bblCbils'')),
                 hmrcPreferential = Some (orEmpty (extractedData ''hmrcPreferential'')),
                 hmrcUnsecured = Some (orEmpty (extractedData ''hmrcUnsecured'')),
                 tradeCreditors = Some (orEmpty (extractedData ''tradeCreditors'')),
                 accountantFirmName = Some (orEmpty (extractedData ''accountantFirmName'')),
                 accountantUrl = snd s \<rparr>))"

text \<open>
  The whole handler.  Whatever is thrown outside an inner \<open>try\<close> reaches the outer
  \<open>catch\<close>, which answers 500 with the message.
\<close>

definition apiExtract :: "world \<Rightarrow> string option \<Rightarrow> string option \<Rightarrow> call list \<times> reply" where
  "apiExtract w companyNo chApiKey =
     (if \<not> truthy companyNo \<or> \<not> truthy chApiKey
      then ([], Status400 ''Company Number and Companies House API Key are required.'')
      else
        (case fetchCompany w (orEmpty companyNo) (orEmpty chApiKey) of
           (tr1, Inl e) \<Rightarrow> (tr1, Status500 e)
         | (tr1, Inr companyData) \<Rightarrow>
             (case fetchFilingHistory w (orEmpty companyNo) (orEmpty chApiKey) tr1 of
                (tr2, Inl e) \<Rightarrow> (tr2, Status500 e)
              | (tr2, Inr filingData) \<Rightarrow>
                  (case fetchOfficers w (orEmpty companyNo) (orEmpty chApiKey) tr2 of
                     (tr3, Inl e) \<Rightarrow> (tr3, Status500 e)
                   | (tr3, Inr dName) \<Rightarrow>
                       afterLookups w (orEmpty chApiKey) tr3 companyData filingData dName))))"

section \<open>vite.config.ts: the ch-pdf-proxy middleware\<close>

record doc_links =
  document :: "string option"

record metadata =
  meta_links :: "doc_links option"

record proxy_world =
  metadataEndpoint :: "metadata response endpoint"
  docEndpoint :: "string response endpoint"
  storageEndpoint :: "string response endpoint"

datatype proxy_reply = Proxy400 string | Proxy500 string | ProxySuccess string

text \<open>
  \<open>String.prototype.trim\<close>.  A \<open>char\<close> has eight bits, so of the white space and line
  terminators that \<open>trim\<close> strips the model has those below 256: tab, line feed, vertical
  tab, form feed, carriage return, space and the no-break space.
\<close>

definition isSpace :: "char \<Rightarrow> bool" where
  "isSpace c = (c \<in> set [CHR '' '', CHR 0x09, CHR 0x0A, CHR 0x0B, CHR 0x0C, CHR 0x0D, CHR 0xA0])"

definition trim :: "string \<Rightarrow> string" where
  "trim s = rev (dropWhile isSpace (rev (dropWhile isSpace s)))"

text \<open>\<open>meta.links?.document\<close>, as the guard reads it.\<close>

definition metaDocument :: "metadata \<Rightarrow> string option" where
  "metaDocument meta =
     (case meta_links meta of
        None \<Rightarrow> None
      | Some l \<Rightarrow> (case document l of
                    None \<Rightarrow> None
                  | Some u \<Rightarrow> if u = [] then None else Some u))"

text \<open>Lines 34-38: the URL of the last request, from the answer to the second.\<close>

definition s3Url :: "string \<Rightarrow> 'a response \<Rightarrow> string" where
  "s3Url docUrlLocal docRes =
     (if 300 \<le> status docRes \<and> status docRes < 400
      then (if truthy (location docRes) then orEmpty (location docRes) else docUrlLocal)
      else docUrlLocal)"

definition pdfProxy :: "proxy_world \<Rightarrow> string option \<Rightarrow> string option \<Rightarrow> call list \<times> proxy_reply" where
  "pdfProxy w targetUrl apiKey =
     (if \<not> truthy targetUrl \<or> \<not> truthy apiKey
      then ([], Proxy400 ''Missing headers'')
      else
        (let auth = Authorization (trim (orEmpty apiKey) @ '':'');
             tr1 = [Fetch (orEmpty targetUrl) [auth] follow]
         in case metadataEndpoint w tr1 of
              Inl e \<Rightarrow> (tr1, Proxy500 e)
            | Inr r \<Rightarrow>
                (case body r of
                   Inl e \<Rightarrow> (tr1, Proxy500 e)
                 | Inr meta \<Rightarrow>
                     (case metaDocument meta of
                        None \<Rightarrow> (tr1, Proxy500 ''No document link found in Companies House.'')
                      | Some docUrlLocal \<Rightarrow>
                          (let tr2 = tr1 @ [Fetch docUrlLocal [auth] manual]
                           in case docEndpoint w tr2 of
                                Inl e \<Rightarrow> (tr2, Proxy500 e)
                              | Inr docRes \<Rightarrow>
                                  (let tr3 = tr2 @ [Fetch (s3Url docUrlLocal docRes) [] follow]
                                   in case storageEndpoint w tr3 of
                                        Inl e \<Rightarrow> (tr3, Proxy500 e)
                                      | Inr s3Res \<Rightarrow>
                                          (case body s3Res of
                                             Inl e \<Rightarrow> (tr3, Proxy500 e)
                                           | Inr b \<Rightarrow> (tr3, ProxySuccess b))))))))"

section \<open>App.tsx: handleExtract\<close>

text \<open>
  The browser-side caller runs a pipeline of its own: profile, filing history, its own
  selection loop, the proxy above, and one AI call.  \<open>candidateText\<close> is
  \<open>aiData.candidates[0].content.parts[0].text\<close> and \<open>errorMessage\<close> is
  \<open>aiData.error?.message\<close>.
\<close>

record pdf_data =
  success :: bool
  base64 :: "string option"
  error :: "string option"

record ai_data =
  candidateText :: ai_text
  errorMessage :: "string option"

record app_world =
  chCompany :: "company response endpoint"
  chFilingHistory :: "item listing response endpoint"
  apiPdf :: "pdf_data response endpoint"
  gemini :: "ai_data response endpoint"

text \<open>What the handler leaves in the component's state: an error, or the new results.\<close>

datatype app_state = SetError string | SetResults "obj list"

text \<open>A template literal prints a missing value as \<open>undefined\<close>.\<close>

definition interpolate :: "string option \<Rightarrow> string" where
  "interpolate v = (case v of None \<Rightarrow> ''undefined'' | Some s \<Rightarrow> s)"

definition isSoaAlt :: "item \<Rightarrow> bool" where
  "isSoaAlt it = (category it = ''statement-of-affairs'' \<or>
     (truthy (description it) \<and> str_includes (orEmpty (description it)) ''resolution''))"

text \<open>Lines 62-68: the loop leaves the first non-empty link of a matching item.\<close>

fun soaMetaLoop :: "item list \<Rightarrow> string option" where
  "soaMetaLoop [] = None"
| "soaMetaLoop (it # rest) =
     (if isSoaAlt it
      then (case documentLink it of Some soaMeta \<Rightarrow> Some soaMeta | None \<Rightarrow> soaMetaLoop rest)
      else soaMetaLoop rest)"

definition geminiUrl :: "string \<Rightarrow> string" where
  "geminiUrl geminiApiKey =
     ''https://generativelanguage.googleapis.com/v1beta/models/gemini-1.5-pro:generateContent?key='' @
     trim geminiApiKey"

definition geminiPrompt :: string where
  "geminiPrompt =
     ''Extract the liquidation data from this Statement of Affairs PDF. '' @ [CHR 0x0A] @
     ''      Find Total Assets (estimated to realise), ODLA (Overdrawn Director Loan Account), Total Deficiency, BBL/CBILS (Bank loans), HMRC Preferential, HMRC Unsecured, and Trade Creditors.'' @ [CHR 0x0A] @
     ''      Also find the Accountant Name or Firm. If not found, return '' @ [CHR 0x27] @ ''Not Found'' @ [CHR 0x27] @
     '' or '' @ [CHR 0x27] @ ''0'' @ [CHR 0x27] @ ''.'' @ [CHR 0x0A] @
     ''      Return JSON STRICTLY matching this structure:'' @ [CHR 0x0A] @
     ''      {'' @ concat (map (\<lambda>k. [CHR 0x22] @ k @ [CHR 0x22] @ '': '' @ [CHR 0x22] @ ''...'' @ [CHR 0x22] @ '', '')
         [''total_assets'', ''odla'', ''total_deficiency'', ''bbl_cbils'', ''hmrc_preferential'',
          ''hmrc_unsecured'', ''trade_creditors'']) @
     [CHR 0x22] @ ''accountant_firm'' @ [CHR 0x22] @ '': '' @ [CHR 0x22] @ ''...'' @ [CHR 0x22] @ ''}''"

text \<open>\<open>JSON.parse\<close> of a text that may be missing: here nothing stands in for it.\<close>

definition parseStrict :: "ai_text \<Rightarrow> string + obj" where
  "parseStrict t =
     (case t of
        NoText \<Rightarrow> Inl ''Cannot read properties of undefined''
      | NotJson m \<Rightarrow> Inl m
      | JsonObject d \<Rightarrow> Inr d)"

text \<open>Lines 71-112: from the download to the new row.\<close>

definition afterSelection ::
  "app_world \<Rightarrow> string \<Rightarrow> string \<Rightarrow> string \<Rightarrow> call list \<Rightarrow> company \<Rightarrow> string \<Rightarrow> call list \<times> (string + obj)" where
  "afterSelection w chApiKey geminiApiKey companyNo tr details soaMeta =
     (let tr1 = tr @ [Fetch ''/api/pdf'' [XTargetUrl soaMeta, XApiKey (trim chApiKey)] follow]
      in case apiPdf w tr1 of
           Inl e \<Rightarrow> (tr1, Inl e)
         | Inr pdfRes \<Rightarrow>
             (case body pdfRes of
                Inl e \<Rightarrow> (tr1, Inl e)
              | Inr pdfData \<Rightarrow>
                  if \<not> success pdfData
                  then (tr1, Inl (''PDF Download failed: '' @ interpolate (error pdfData)))
                  else
                    (let tr2 = tr1 @ [Post (geminiUrl geminiApiKey) [ContentType ''application/json'']
                                        geminiPrompt (interpolate (base64 pdfData))]
                     in case gemini w tr2 of
                          Inl e \<Rightarrow> (tr2, Inl e)
                        | Inr aiResponse \<Rightarrow>
                            (case body aiResponse of
                               Inl e \<Rightarrow> (tr2, Inl e)
                             | Inr aiData \<Rightarrow>
                                 if \<not> ok aiResponse
                                 then (tr2, Inl (''Gemini Error: '' @ interpolate (errorMessage aiData)))
                                 else
                                   (case parseStrict (candidateText aiData) of
                                      Inl e \<Rightarrow> (tr2, Inl ''Gemini successfully read the document but failed to output a clean table.'')
                                    | Inr extractedData \<Rightarrow>
                                        (tr2, Inr ([''companyNumber'' \<mapsto> companyNo,
                                                    ''companyName'' \<mapsto>
                                                      (if truthy (company_name details)
                                                       then orEmpty (company_name details) else ''N/A'')]
                                                   ++ extractedData)))))))"

text \<open>Lines 49-107: the body of the \<open>try\<close> block.\<close>

definition handleExtractTry ::
  "app_world \<Rightarrow> string \<Rightarrow> string \<Rightarrow> string \<Rightarrow> call list \<times> (string + obj)" where
  "handleExtractTry w chApiKey geminiApiKey companyNo =
     (let authHeader = Authorization (trim chApiKey @ '':'');
          tr1 = [Fetch (''/api/ch/company/'' @ companyNo) [authHeader] follow]
      in case chCompany w tr1 of
           Inl e \<Rightarrow> (tr1, Inl e)
         | Inr detailsRes \<Rightarrow>
             if \<not> ok detailsRes
             then (tr1, Inl ''Could not find this Company Number in Companies House.'')
             else
               (case body detailsRes of
                  Inl e \<Rightarrow> (tr1, Inl e)
                | Inr details \<Rightarrow>
                    (let tr2 = tr1 @ [Fetch (''/api/ch/company/'' @ companyNo @ ''/filing-history'')
                                        [authHeader] follow]
                     in case chFilingHistory w tr2 of
                          Inl e \<Rightarrow> (tr2, Inl e)
                        | Inr historyRes \<Rightarrow>
                            (case body historyRes of
                               Inl e \<Rightarrow> (tr2, Inl e)
                             | Inr history \<Rightarrow>
                                 (case soaMetaLoop (itemsOf history) of
                                    None \<Rightarrow> (tr2, Inl ''No Statement of Affairs found in the filing history.'')
                                  | Some soaMeta \<Rightarrow>
                                      afterSelection w chApiKey geminiApiKey companyNo tr2 details soaMeta)))))"

definition handleExtract ::
  "app_world \<Rightarrow> string \<Rightarrow> string \<Rightarrow> string \<Rightarrow> obj list \<Rightarrow> call list \<times> app_state" where
  "handleExtract w chApiKey geminiApiKey companyNo rs =
     (if chApiKey = [] \<or> geminiApiKey = []
      then ([], SetError ''Please set both API Keys in the sidebar.'')
      else if companyNo = []
      then ([], SetError ''Please enter a valid Company Number.'')
      else
        (case handleExtractTry w chApiKey geminiApiKey companyNo of
           (tr, Inl e) \<Rightarrow> (tr, SetError (''Extraction Failed: '' @ e))
         | (tr, Inr r) \<Rightarrow> (tr, SetResults (r # rs))))"

section \<open>Auxiliary notions for the statements\<close>


text \<open>The registry requests of the two pipelines, named for the statements below.\<close>

definition profileCall :: "string \<Rightarrow> string \<Rightarrow> call" where
  "profileCall companyNo chApiKey =
     Fetch (registry @ ''/company/'' @ companyNo) [Authorization (chApiKey @ '':'')] follow"

definition historyCall :: "string \<Rightarrow> string \<Rightarrow> call" where
  "historyCall companyNo chApiKey =
     Fetch (registry @ ''/company/'' @ companyNo @ ''/filing-history?items_per_page=100'')
       [Authorization (chApiKey @ '':'')] follow"

definition detailsCall :: "string \<Rightarrow> string \<Rightarrow> call" where
  "detailsCall companyNo chApiKey =
     Fetch (''/api/ch/company/'' @ companyNo) [Authorization (trim chApiKey @ '':'')] follow"

definition appHistoryCall :: "string \<Rightarrow> string \<Rightarrow> call" where
  "appHistoryCall companyNo chApiKey =
     Fetch (''/api/ch/company/'' @ companyNo @ ''/filing-history'') [Authorization (trim chApiKey @ '':'')] follow"

section \<open>Example inputs\<close>

definition acc :: "string option \<Rightarrow> item" where
  "acc u = \<lparr> category = ''accounts'', description = Some ''accounts-with-accounts-type-micro-entity'',
             links = Some \<lparr> document_metadata = u \<rparr> \<rparr>"

definition soa :: "string option \<Rightarrow> item" where
  "soa u = \<lparr> category = ''insolvency'', description = Some ''liquidation-voluntary-statement-of-affairs'',
             links = Some \<lparr> document_metadata = u \<rparr> \<rparr>"

definition okResponse :: "'a \<Rightarrow> 'a response" where
  "okResponse b = \<lparr> status = 200, statusText = ''OK'', location = None, body = Inr b \<rparr>"

definition notFound :: "'a response" where
  "notFound = \<lparr> status = 404, statusText = ''Not Found'', location = None, body = Inl ''Unexpected end of JSON input'' \<rparr>"

text \<open>
  A registry with five accounts filings and one director.  The document \<open>doc/2\<close> cannot
  be fetched; the AI finds a firm name in \<open>doc/3\<close> only, and answers every other
  request, the demographic one included, with no text.
\<close>

definition exampleWorld :: world where
  "exampleWorld =
     \<lparr> companyEndpoint = (\<lambda>tr. Inr (okResponse \<lparr> company_name = Some ''ACME LTD'', company_number = Some ''11969947'' \<rparr>)),
       filingEndpoint = (\<lambda>tr. Inr (okResponse \<lparr> items = Some [acc None, acc (Some ''doc/1''), acc (Some ''doc/2''), acc (Some ''doc/3''), acc (Some ''doc/4'')] \<rparr>)),
       officersEndpoint = (\<lambda>tr. Inr (okResponse \<lparr> items = Some [\<lparr> name = Some ''SMITH, John'', officer_role = ''director'' \<rparr>] \<rparr>)),
       documentEndpoint = (\<lambda>tr. case last tr of
            Fetch u h m \<Rightarrow> if u = ''doc/2'' then Inl ''fetch failed'' else Inr (okResponse u)
          | _ \<Rightarrow> Inl ''fetch failed''),
       generateContent = (\<lambda>tr. case last tr of
            GenerateContent m d p s \<Rightarrow>
              if d = Some ''doc/3'' then Inr (JsonObject [''accountantFirmName'' \<mapsto> ''Jones LLP''])
              else Inr NoText
          | _ \<Rightarrow> Inl ''no reply''),
       search = (\<lambda>tr. Inr \<lparr> results = Some [\<lparr> url = Some ''https://jones.example'' \<rparr>] \<rparr>) \<rparr>"

text \<open>The same registry with four accounts filings, the third of them \<open>doc/3\<close>.\<close>

definition exampleRegistry :: world where
  "exampleRegistry = exampleWorld
     \<lparr> filingEndpoint := (\<lambda>tr. Inr (okResponse \<lparr> items = Some [acc None, acc (Some ''doc/1''), acc (Some ''doc/3''), acc (Some ''doc/4'')] \<rparr>)) \<rparr>"

definition noCompany :: world where
  "noCompany = exampleWorld \<lparr> companyEndpoint := (\<lambda>tr. Inr notFound) \<rparr>"

definition noHistory :: world where
  "noHistory = exampleWorld \<lparr> filingEndpoint := (\<lambda>tr. Inr notFound) \<rparr>"

text \<open>What the browser-side caller sees of a company with the filing history \<open>its\<close>.\<close>

definition exampleApp :: "item list \<Rightarrow> app_world" where
  "exampleApp its =
     \<lparr> chCompany = (\<lambda>tr. Inr (okResponse \<lparr> company_name = Some ''ACME LTD'', company_number = Some ''11969947'' \<rparr>)),
       chFilingHistory = (\<lambda>tr. Inr (okResponse \<lparr> items = Some its \<rparr>)),
       apiPdf = (\<lambda>tr. Inr (okResponse \<lparr> success = True, base64 = Some ''JVBERi0='', error = None \<rparr>)),
       gemini = (\<lambda>tr. Inr (okResponse \<lparr> candidateText = JsonObject [''total_assets'' \<mapsto> ''100000''], errorMessage = None \<rparr>)) \<rparr>"

text \<open>
  The proxy's world: the metadata names the document URL, the document endpoint answers
  \<open>docRes\<close>, and the store returns bytes that name the URL they were asked at.
\<close>

definition redirectTo :: "nat \<Rightarrow> string \<Rightarrow> string option \<Rightarrow> string response" where
  "redirectTo code reason l = \<lparr> status = code, statusText = reason, location = l, body = Inr [] \<rparr>"

definition exampleProxy :: "string response \<Rightarrow> proxy_world" where
  "exampleProxy docRes =
     \<lparr> metadataEndpoint = (\<lambda>tr. Inr (okResponse \<lparr> meta_links = Some \<lparr> document = Some ''https://reg/document/1/content'' \<rparr> \<rparr>)),
       docEndpoint = (\<lambda>tr. Inr docRes),
       storageEndpoint = (\<lambda>tr. case last tr of
            Fetch u h m \<Rightarrow> Inr (okResponse (''bytes of '' @ u))
          | _ \<Rightarrow> Inl ''fetch failed'') \<rparr>"

text \<open>
  A document endpoint that answers 300 with a \<open>Location\<close> header: a 3xx status that the
  automatic redirect handling of \<open>fetch\<close> does not follow, so the caller sees it.
\<close>

definition multipleChoices :: world where
  "multipleChoices = exampleWorld
     \<lparr> documentEndpoint := (\<lambda>tr. Inr (redirectTo 300 ''Multiple Choices'' (Some ''https://s3.example/doc1''))) \<rparr>"

section \<open>Properties of the selection\<close>

lemma orEmpty_simps: "orEmpty None = []" "orEmpty (Some s) = s"
  by (simp_all add: orEmpty_def)

lemma find_first_split:
  "List.find P xs = Some y \<Longrightarrow> \<exists>pre post. xs = pre @ y # post \<and> P y \<and> (\<forall>x\<in>set pre. \<not> P x)"
proof (induction xs)
  case Nil
  then show ?case by simp
next
  case (Cons a xs)
  show ?case
  proof (cases "P a")
    case True
    with Cons.prems have "a = y" by simp
    then have "a # xs = [] @ y # xs \<and> P y \<and> (\<forall>x\<in>set []. \<not> P x)" using True by simp
    then show ?thesis by blast
  next
    case False
    with Cons.prems have "List.find P xs = Some y" by simp
    from Cons.IH[OF this] obtain pre post where
      h: "xs = pre @ y # post" "P y" "\<forall>x\<in>set pre. \<not> P x" by blast
    have "a # xs = (a # pre) @ y # post \<and> P y \<and> (\<forall>x\<in>set (a # pre). \<not> P x)"
      using h False by simp
    then show ?thesis by blast
  qed
qed

lemma soaItem_None: "soaItem its = None \<longleftrightarrow> (\<forall>x\<in>set its. \<not> isSoa x)"
  by (auto simp: soaItem_def find_None_iff)

text \<open>
  C6.  The accounts candidates are the items of category \<open>accounts\<close> in the order of the
  filing history, cut after the third: they are an initial segment of those items and a
  subsequence of the history; a history with more than three such items gives exactly
  three, a history with three or fewer gives all of them.
\<close>

theorem C6_accounts_first_three:
  "prefix (accountItems its) (filter (\<lambda>it. category it = ''accounts'') its) \<and>
   subseq (accountItems its) its \<and>
   (length (filter (\<lambda>it. category it = ''accounts'') its) > 3 \<longrightarrow> length (accountItems its) = 3) \<and>
   (length (filter (\<lambda>it. category it = ''accounts'') its) \<le> 3 \<longrightarrow>
      accountItems its = filter (\<lambda>it. category it = ''accounts'') its)"
proof (intro conjI impI)
  show "prefix (accountItems its) (filter (\<lambda>it. category it = ''accounts'') its)"
    by (simp add: accountItems_def take_is_prefix)
  have "subseq (take 3 (filter (\<lambda>it. category it = ''accounts'') its)) (filter (\<lambda>it. category it = ''accounts'') its)"
    by (rule prefix_imp_subseq) (rule take_is_prefix)
  also have "subseq \<dots> its" by (rule subseq_filter_left)
  finally show "subseq (accountItems its) its" by (simp add: accountItems_def)
next
  assume "length (filter (\<lambda>it. category it = ''accounts'') its) > 3"
  then show "length (accountItems its) = 3" by (simp add: accountItems_def)
next
  assume "length (filter (\<lambda>it. category it = ''accounts'') its) \<le> 3"
  then show "accountItems its = filter (\<lambda>it. category it = ''accounts'') its"
    by (simp add: accountItems_def)
qed

theorem C6_witness:
  "length (accountItems [acc None, soa None, acc (Some ''doc/1''), acc (Some ''doc/2''), acc (Some ''doc/3'')]) = 3 \<and>
   accountItems [acc (Some ''doc/1''), soa None, acc None] = [acc (Some ''doc/1''), acc None]"
proof -
  have a: "length (filter (\<lambda>it. category it = ''accounts'')
             [acc None, soa None, acc (Some ''doc/1''), acc (Some ''doc/2''), acc (Some ''doc/3'')]) > 3"
    by (simp add: acc_def soa_def)
  have b: "length (filter (\<lambda>it. category it = ''accounts'') [acc (Some ''doc/1''), soa None, acc None]) \<le> 3"
    by simp
  have c: "filter (\<lambda>it. category it = ''accounts'') [acc (Some ''doc/1''), soa None, acc None]
           = [acc (Some ''doc/1''), acc None]"
    by (simp add: acc_def soa_def)
  from C6_accounts_first_three[THEN conjunct2, THEN conjunct2, THEN conjunct1, rule_format, OF a]
       C6_accounts_first_three[THEN conjunct2, THEN conjunct2, THEN conjunct2, rule_format, OF b]
  show ?thesis by (simp only: c simp_thms)
qed

section \<open>Properties of the fallback loop\<close>



text \<open>
  What leaves the loop running at a candidate with a link: a rejected fetch, a status
  outside 200-299, a body that cannot be read, a rejected AI call, a reply that does not
  parse, a reply with no text, and an object whose \<open>accountantFirmName\<close> is missing or
  empty.  In each case the exception is caught, or the test of line 148 fails, and the
  candidate yields nothing.
\<close>

lemma accCandidate_failures:
  assumes "documentLink c = Some u"
  shows
    "documentEndpoint w (tr @ [Fetch u [Authorization (k @ '':''), Accept ''application/pdf''] follow]) = Inl e
       \<Longrightarrow> accCandidate w k tr c =
           (tr @ [Fetch u [Authorization (k @ '':''), Accept ''application/pdf''] follow], None)"
    "documentEndpoint w (tr @ [Fetch u [Authorization (k @ '':''), Accept ''application/pdf''] follow]) = Inr res
       \<Longrightarrow> \<not> ok res \<or> body res = Inl e
       \<Longrightarrow> accCandidate w k tr c =
           (tr @ [Fetch u [Authorization (k @ '':''), Accept ''application/pdf''] follow], None)"
    "documentEndpoint w (tr @ [Fetch u [Authorization (k @ '':''), Accept ''application/pdf''] follow]) = Inr res
       \<Longrightarrow> ok res \<Longrightarrow> body res = Inr pdf
       \<Longrightarrow> generateContent w
             (tr @ [Fetch u [Authorization (k @ '':''), Accept ''application/pdf''] follow,
                    GenerateContent ''gemini-2.5-flash'' (Some pdf) accPrompt [''accountantFirmName'']]) = r
       \<Longrightarrow> r = Inl e \<or> r = Inr (NotJson m) \<or> r = Inr NoText \<or>
           (r = Inr (JsonObject d) \<and> \<not> truthy (d ''accountantFirmName''))
       \<Longrightarrow> accCandidate w k tr c =
           (tr @ [Fetch u [Authorization (k @ '':''), Accept ''application/pdf''] follow,
                  GenerateContent ''gemini-2.5-flash'' (Some pdf) accPrompt [''accountantFirmName'']], None)"
  using assms
  by (auto simp: accCandidate_def accTry_def downloadPdf_def parseText_def truthy_def Let_def)

text \<open>Every candidate with a link that the loop reaches is fetched.\<close>

lemma accCandidate_fetches_link:
  "documentLink c = Some u \<Longrightarrow>
   \<exists>rest. fst (accCandidate w k tr c) =
     tr @ Fetch u [Authorization (k @ '':''), Accept ''application/pdf''] follow # rest"
  by (auto simp: accCandidate_def accTry_def downloadPdf_def Let_def
      split: option.splits prod.splits sum.splits if_splits)




lemma fallbackLoop_frame:
  "f \<noteq> ''accountantFirmName'' \<Longrightarrow> snd (fallbackLoop w k cs (tr, d)) f = d f"
  by (induction cs arbitrary: tr) (auto split: prod.splits option.splits)

lemma skip_linkless:
  "documentLink c = None \<Longrightarrow> fallbackLoop w k (pre @ c # post) (tr, d) = fallbackLoop w k (pre @ post) (tr, d)"
proof (induction pre arbitrary: tr)
  case Nil
  then show ?case by (simp add: accCandidate_def)
next
  case (Cons a pre)
  then show ?case by (auto split: prod.splits option.splits)
qed



text \<open>
  C9.  The fallback pass leaves every property of \<open>extractedData\<close> other than
  \<open>accountantFirmName\<close> as the primary pass left it, whatever the fetches and the AI
  return: in particular \<open>totalAssets\<close>, \<open>odla\<close>, \<open>totalDeficiency\<close>, \<open>bblCbils\<close>,
  \<open>hmrcPreferential\<close>, \<open>hmrcUnsecured\<close> and \<open>tradeCreditors\<close>.
\<close>

theorem C9_fallback_frame:
  "\<forall>f. f \<noteq> ''accountantFirmName'' \<longrightarrow> snd (fallbackPass w k accs (tr, d)) f = d f"
  by (simp add: fallbackPass_def fallbackLoop_frame)

theorem C9_witness:
  "snd (fallbackPass exampleWorld ''key'' [acc (Some ''doc/3'')] ([], [''totalAssets'' \<mapsto> ''100000''])) ''totalAssets''
     = Some ''100000'' \<and>
   snd (fallbackPass exampleWorld ''key'' [acc (Some ''doc/3'')] ([], [''totalAssets'' \<mapsto> ''100000''])) ''accountantFirmName''
     = Some ''Jones LLP''"
proof -
  have n: "''totalAssets'' \<noteq> ''accountantFirmName''" by simp
  have a: "snd (fallbackPass exampleWorld ''key'' [acc (Some ''doc/3'')] ([], [''totalAssets'' \<mapsto> ''100000''])) ''accountantFirmName''
     = Some ''Jones LLP''"
    by (simp add: fallbackPass_def exampleWorld_def acc_def accCandidate_def accTry_def downloadPdf_def
      documentLink_def okResponse_def ok_def parseText_def truthy_def Let_def)
  from C9_fallback_frame[rule_format, OF n, of exampleWorld "''key''" "[acc (Some ''doc/3'')]" "[]" "[''totalAssets'' \<mapsto> ''100000'']"] a
  show ?thesis by simp
qed

section \<open>Properties of the two selectors\<close>

lemma primaryPass_first_call:
  "documentLink it = Some u \<Longrightarrow>
   \<exists>rest. fst (primaryPass w k tr (Some it)) =
     tr @ Fetch u [Authorization (k @ '':''), Accept ''application/pdf''] follow # rest"
  by (auto simp: primaryPass_def soaTry_def downloadPdf_def Let_def
      split: option.splits prod.splits sum.splits if_splits)

lemma soaMetaLoop_find:
  "soaMetaLoop its =
     (case List.find (\<lambda>x. isSoaAlt x \<and> documentLink x \<noteq> None) its of
        None \<Rightarrow> None | Some it \<Rightarrow> documentLink it)"
  by (induction its) (auto split: option.splits)

text \<open>
  C5, as amended.  In server.ts, when some item of the filing history matches the
  insolvency predicate (category \<open>insolvency\<close>, description containing
  \<open>statement-of-affairs\<close>), \<open>soaItem\<close> is the first such item in the order of the history,
  and the primary pass takes the document-metadata reference of that item: if the item
  has a non-empty link, the first call of the pass fetches exactly that link; if it has
  none, the pass does nothing.  The selection loop of App.tsx matches another predicate
  (category \<open>statement-of-affairs\<close>, or a description containing \<open>resolution\<close>) and returns
  the link of the first item that matches it and has a non-empty link.
\<close>

theorem C5_first_insolvency_match:
  "((\<exists>x\<in>set its. isSoa x) \<longrightarrow>
      (\<exists>pre it post. its = pre @ it # post \<and> isSoa it \<and> (\<forall>x\<in>set pre. \<not> isSoa x) \<and>
         soaItem its = Some it \<and>
         (case documentLink it of
            None \<Rightarrow> primaryPass w k tr (soaItem its) = (tr, Map.empty)
          | Some u \<Rightarrow> (\<exists>rest. fst (primaryPass w k tr (soaItem its)) =
                tr @ Fetch u [Authorization (k @ '':''), Accept ''application/pdf''] follow # rest)))) \<and>
   soaMetaLoop its =
     (case List.find (\<lambda>x. isSoaAlt x \<and> documentLink x \<noteq> None) its of
        None \<Rightarrow> None | Some it \<Rightarrow> documentLink it)"
proof (intro conjI impI)
  assume "\<exists>x\<in>set its. isSoa x"
  then have "soaItem its \<noteq> None" by (simp add: soaItem_None)
  then obtain it where s: "soaItem its = Some it" by blast
  then have "List.find isSoa its = Some it" by (simp add: soaItem_def)
  from find_first_split[OF this] obtain pre post where
    d: "its = pre @ it # post" "isSoa it" "\<forall>x\<in>set pre. \<not> isSoa x" by blast
  have "case documentLink it of
            None \<Rightarrow> primaryPass w k tr (soaItem its) = (tr, Map.empty)
          | Some u \<Rightarrow> (\<exists>rest. fst (primaryPass w k tr (soaItem its)) =
                tr @ Fetch u [Authorization (k @ '':''), Accept ''application/pdf''] follow # rest)"
  proof (cases "documentLink it")
    case None
    then show ?thesis using s by (simp add: primaryPass_def)
  next
    case (Some u)
    then show ?thesis using s primaryPass_first_call[OF Some] by simp
  qed
  with s d show "\<exists>pre it post. its = pre @ it # post \<and> isSoa it \<and> (\<forall>x\<in>set pre. \<not> isSoa x) \<and>
         soaItem its = Some it \<and>
         (case documentLink it of
            None \<Rightarrow> primaryPass w k tr (soaItem its) = (tr, Map.empty)
          | Some u \<Rightarrow> (\<exists>rest. fst (primaryPass w k tr (soaItem its)) =
                tr @ Fetch u [Authorization (k @ '':''), Accept ''application/pdf''] follow # rest))"
    by blast
next
  show "soaMetaLoop its =
     (case List.find (\<lambda>x. isSoaAlt x \<and> documentLink x \<noteq> None) its of
        None \<Rightarrow> None | Some it \<Rightarrow> documentLink it)"
    by (rule soaMetaLoop_find)
qed

theorem C5_witness:
  "soaItem [acc (Some ''doc/1''), soa None, soa (Some ''doc/5'')] = Some (soa None) \<and>
   soaItem [acc (Some ''doc/1''), soa (Some ''doc/5''), soa (Some ''doc/6'')] = Some (soa (Some ''doc/5''))"
proof -
  have m: "isSoa (soa None)" "isSoa (soa (Some ''doc/5''))" "isSoa (soa (Some ''doc/6''))" "\<not> isSoa (acc (Some ''doc/1''))"
    by (simp_all add: isSoa_def soa_def acc_def)
  have a: "\<exists>x\<in>set [acc (Some ''doc/1''), soa None, soa (Some ''doc/5'')]. isSoa x" using m by simp
  have b: "\<exists>x\<in>set [acc (Some ''doc/1''), soa (Some ''doc/5''), soa (Some ''doc/6'')]. isSoa x" using m by simp
  from C5_first_insolvency_match[THEN conjunct1, rule_format, OF a, of exampleWorld "''key''" "[]"]
  obtain pre it post where
    x: "[acc (Some ''doc/1''), soa None, soa (Some ''doc/5'')] = pre @ it # post" "isSoa it"
       "\<forall>x\<in>set pre. \<not> isSoa x" "soaItem [acc (Some ''doc/1''), soa None, soa (Some ''doc/5'')] = Some it"
    by blast
  from C5_first_insolvency_match[THEN conjunct1, rule_format, OF b, of exampleWorld "''key''" "[]"]
  obtain pre' it' post' where
    y: "[acc (Some ''doc/1''), soa (Some ''doc/5''), soa (Some ''doc/6'')] = pre' @ it' # post'" "isSoa it'"
       "\<forall>x\<in>set pre'. \<not> isSoa x" "soaItem [acc (Some ''doc/1''), soa (Some ''doc/5''), soa (Some ''doc/6'')] = Some it'"
    by blast
  have "it = soa None" using x(1-3) m
    by (auto simp: Cons_eq_append_conv append_eq_Cons_conv)
  moreover have "it' = soa (Some ''doc/5'')" using y(1-3) m
    by (auto simp: Cons_eq_append_conv append_eq_Cons_conv)
  ultimately show ?thesis using x(4) y(4) by simp
qed

text \<open>
  The claim as stated fails on the loop of App.tsx: a history whose only item matches the
  insolvency predicate and carries a link gives no candidate there, and the caller ends
  with an error.
\<close>

theorem C5_counterexample:
  "isSoa (soa (Some ''https://reg/doc/1'')) \<and>
   documentLink (soa (Some ''https://reg/doc/1'')) = Some ''https://reg/doc/1'' \<and>
   soaMetaLoop [soa (Some ''https://reg/doc/1'')] = None \<and>
   handleExtract (exampleApp [soa (Some ''https://reg/doc/1'')]) ''key'' ''gkey'' ''11969947'' [] =
     ([Fetch ''/api/ch/company/11969947'' [Authorization ''key:''] follow,
       Fetch ''/api/ch/company/11969947/filing-history'' [Authorization ''key:''] follow],
      SetError ''Extraction Failed: No Statement of Affairs found in the filing history.'')"
  by (simp add: isSoa_def isSoaAlt_def documentLink_def soa_def truthy_def orEmpty_def
      handleExtract_def handleExtractTry_def exampleApp_def okResponse_def ok_def trim_def isSpace_def itemsOf_def Let_def)

section \<open>Properties of the handler\<close>

lemma apiExtract_after_lookups:
  "truthy companyNo \<Longrightarrow> truthy chApiKey \<Longrightarrow>
   fetchCompany w (orEmpty companyNo) (orEmpty chApiKey) = (tr1, Inr cd) \<Longrightarrow>
   fetchFilingHistory w (orEmpty companyNo) (orEmpty chApiKey) tr1 = (tr2, Inr fd) \<Longrightarrow>
   fetchOfficers w (orEmpty companyNo) (orEmpty chApiKey) tr2 = (tr3, Inr dn) \<Longrightarrow>
   apiExtract w companyNo chApiKey = afterLookups w (orEmpty chApiKey) tr3 cd fd dn"
  by (simp add: apiExtract_def)

lemma fallbackPass_frame:
  "f \<noteq> ''accountantFirmName'' \<Longrightarrow> snd (fallbackPass w k accs (tr, d)) f = d f"
  by (simp add: fallbackPass_def fallbackLoop_frame)

lemma handleExtract_no_soa:
  "chApiKey \<noteq> [] \<Longrightarrow> geminiApiKey \<noteq> [] \<Longrightarrow> companyNo \<noteq> [] \<Longrightarrow>
   chCompany aw [detailsCall companyNo chApiKey] = Inr detailsRes \<Longrightarrow> ok detailsRes \<Longrightarrow>
   body detailsRes = Inr details \<Longrightarrow>
   chFilingHistory aw [detailsCall companyNo chApiKey, appHistoryCall companyNo chApiKey] = Inr historyRes \<Longrightarrow>
   body historyRes = Inr history \<Longrightarrow>
   soaMetaLoop (itemsOf history) = None \<Longrightarrow>
   handleExtract aw chApiKey geminiApiKey companyNo rs =
     ([detailsCall companyNo chApiKey, appHistoryCall companyNo chApiKey],
      SetError ''Extraction Failed: No Statement of Affairs found in the filing history.'')"
  by (simp add: handleExtract_def handleExtractTry_def detailsCall_def appHistoryCall_def Let_def)

text \<open>The handler on the example registry, stage by stage.\<close>

lemma example_lookups:
  "fetchCompany exampleRegistry ''11969947'' ''key'' =
     ([profileCall ''11969947'' ''key''],
      Inr \<lparr> company_name = Some ''ACME LTD'', company_number = Some ''11969947'' \<rparr>)"
  "fetchFilingHistory exampleRegistry ''11969947'' ''key'' tr =
     (tr @ [historyCall ''11969947'' ''key''],
      Inr \<lparr> items = Some [acc None, acc (Some ''doc/1''), acc (Some ''doc/3''), acc (Some ''doc/4'')] \<rparr>)"
  "fetchOfficers exampleRegistry ''11969947'' ''key'' tr =
     (tr @ [Fetch (registry @ ''/company/11969947/officers'') [Authorization ''key:''] follow], Inr (Some ''SMITH, John''))"
  by (simp_all add: fetchCompany_def fetchFilingHistory_def fetchOfficers_def exampleRegistry_def
      exampleWorld_def okResponse_def ok_def profileCall_def historyCall_def Let_def)

lemma example_stages:
  "primaryPass exampleRegistry ''key'' tr
     (soaItem [acc None, acc (Some ''doc/1''), acc (Some ''doc/3''), acc (Some ''doc/4'')]) = (tr, Map.empty)"
  "accountItems [acc None, acc (Some ''doc/1''), acc (Some ''doc/3''), acc (Some ''doc/4'')]
     = [acc None, acc (Some ''doc/1''), acc (Some ''doc/3'')]"
  "snd (fallbackPass exampleRegistry ''key'' [acc None, acc (Some ''doc/1''), acc (Some ''doc/3'')] (tr, Map.empty))
     = [''accountantFirmName'' \<mapsto> ''Jones LLP'']"
  "snd (ethnicityStage exampleRegistry tr (Some ''SMITH, John'')) = None"
  "snd (webSearchStage exampleRegistry tr [''accountantFirmName'' \<mapsto> ''Jones LLP'']) = Some ''https://jones.example''"
      apply (simp add: primaryPass_def soaItem_def isSoa_def acc_def)
     apply (simp add: accountItems_def acc_def)
    apply (simp add: fallbackPass_def exampleRegistry_def exampleWorld_def acc_def accCandidate_def
      accTry_def downloadPdf_def documentLink_def okResponse_def ok_def parseText_def truthy_def Let_def)
   apply (simp add: ethnicityStage_def exampleRegistry_def exampleWorld_def parseText_def truthy_def Let_def)
  apply (simp add: webSearchStage_def exampleRegistry_def exampleWorld_def truthy_def orEmpty_def Let_def)
  done

text \<open>
  C2.  When the company-profile lookup answers with a status outside 200-299, the handler
  answers 500 with the message \<open>Failed to fetch company details:\<close> and the status text,
  and its trace is that one lookup.  When the profile lookup succeeds and the
  filing-history lookup answers with a status outside 200-299, the handler answers 500
  with \<open>Failed to fetch filing history:\<close> and the status text, and its trace is the two
  lookups.  In both cases there is no row, no document fetch, no AI call and no search.
\<close>

theorem C2_mandatory_lookup_failure_aborts:
  "(truthy companyNo \<and> truthy chApiKey \<and>
    companyEndpoint w [profileCall (orEmpty companyNo) (orEmpty chApiKey)] = Inr companyRes \<and>
    \<not> ok companyRes
    \<longrightarrow> apiExtract w companyNo chApiKey =
          ([profileCall (orEmpty companyNo) (orEmpty chApiKey)],
           Status500 (''Failed to fetch company details: '' @ statusText companyRes))) \<and>
   (truthy companyNo \<and> truthy chApiKey \<and>
    companyEndpoint w [profileCall (orEmpty companyNo) (orEmpty chApiKey)] = Inr profileRes \<and>
    ok profileRes \<and> body profileRes = Inr companyData \<and>
    filingEndpoint w [profileCall (orEmpty companyNo) (orEmpty chApiKey),
                      historyCall (orEmpty companyNo) (orEmpty chApiKey)] = Inr filingRes \<and>
    \<not> ok filingRes
    \<longrightarrow> apiExtract w companyNo chApiKey =
          ([profileCall (orEmpty companyNo) (orEmpty chApiKey),
            historyCall (orEmpty companyNo) (orEmpty chApiKey)],
           Status500 (''Failed to fetch filing history: '' @ statusText filingRes)))"
  by (simp add: apiExtract_def fetchCompany_def fetchFilingHistory_def profileCall_def
      historyCall_def Let_def)

theorem C2_witness:
  "apiExtract noCompany (Some ''11969947'') (Some ''key'') =
     ([Fetch ''https://api.company-information.service.gov.uk/company/11969947'' [Authorization ''key:''] follow],
      Status500 ''Failed to fetch company details: Not Found'') \<and>
   apiExtract noHistory (Some ''11969947'') (Some ''key'') =
     ([Fetch ''https://api.company-information.service.gov.uk/company/11969947'' [Authorization ''key:''] follow,
       Fetch ''https://api.company-information.service.gov.uk/company/11969947/filing-history?items_per_page=100''
         [Authorization ''key:''] follow],
      Status500 ''Failed to fetch filing history: Not Found'')"
proof -
  have a: "truthy (Some ''11969947'') \<and> truthy (Some ''key'') \<and>
    companyEndpoint noCompany [profileCall (orEmpty (Some ''11969947'')) (orEmpty (Some ''key''))] = Inr notFound \<and>
    \<not> ok (notFound :: company response)"
    by (simp add: truthy_def noCompany_def exampleWorld_def ok_def notFound_def)
  have b: "truthy (Some ''11969947'') \<and> truthy (Some ''key'') \<and>
    companyEndpoint noHistory [profileCall (orEmpty (Some ''11969947'')) (orEmpty (Some ''key''))]
      = Inr (okResponse \<lparr> company_name = Some ''ACME LTD'', company_number = Some ''11969947'' \<rparr>) \<and>
    ok (okResponse \<lparr> company_name = Some ''ACME LTD'', company_number = Some ''11969947'' \<rparr>) \<and>
    body (okResponse \<lparr> company_name = Some ''ACME LTD'', company_number = Some ''11969947'' \<rparr>)
      = Inr \<lparr> company_name = Some ''ACME LTD'', company_number = Some ''11969947'' \<rparr> \<and>
    filingEndpoint noHistory [profileCall (orEmpty (Some ''11969947'')) (orEmpty (Some ''key'')),
                      historyCall (orEmpty (Some ''11969947'')) (orEmpty (Some ''key''))] = Inr notFound \<and>
    \<not> ok (notFound :: item listing response)"
    by (simp add: truthy_def noHistory_def exampleWorld_def ok_def notFound_def okResponse_def)
  from C2_mandatory_lookup_failure_aborts[THEN conjunct1, rule_format, OF a]
       C2_mandatory_lookup_failure_aborts[THEN conjunct2, rule_format, OF b]
  show ?thesis
    by (simp add: profileCall_def historyCall_def orEmpty_def registry_def notFound_def)
qed

text \<open>
  C7.  The handler on the example registry: all lookups succeed, the officers list has a
  director, and the demographic call resolves with no text.  Line 174 then assigns the
  \<open>ethnicity\<close> property of the empty object, which is \<open>undefined\<close>, and the row goes out
  without an \<open>ethnicity\<close>.
\<close>

theorem C7_ethnicity_undefined:
  "snd (apiExtract exampleRegistry (Some ''11969947'') (Some ''key'')) =
     Json \<lparr> companyName = Some ''ACME LTD'', companyNumber = Some ''11969947'',
            directorName = Some ''SMITH, John'', ethnicity = None,
            totalAssets = Some [], odla = Some [], totalDeficiency = Some [],
            bblCbils = Some [], hmrcPreferential = Some [], hmrcUnsecured = Some [],
            tradeCreditors = Some [], accountantFirmName = Some ''Jones LLP'',
            accountantUrl = Some ''https://jones.example'' \<rparr>"
proof -
  have "apiExtract exampleRegistry (Some ''11969947'') (Some ''key'') =
        afterLookups exampleRegistry ''key''
          ([profileCall ''11969947'' ''key''] @ [historyCall ''11969947'' ''key''] @
           [Fetch (registry @ ''/company/11969947/officers'') [Authorization ''key:''] follow])
          \<lparr> company_name = Some ''ACME LTD'', company_number = Some ''11969947'' \<rparr>
          \<lparr> items = Some [acc None, acc (Some ''doc/1''), acc (Some ''doc/3''), acc (Some ''doc/4'')] \<rparr>
          (Some ''SMITH, John'')"
    by (simp add: apiExtract_def truthy_def orEmpty_def example_lookups)
  then show ?thesis
    by (simp add: afterLookups_def Let_def itemsOf_def example_stages orEmpty_def)
qed

theorem C7_witness:
  "\<exists>r. snd (apiExtract exampleRegistry (Some ''11969947'') (Some ''key'')) = Json r \<and>
       directorName r = Some ''SMITH, John'' \<and> ethnicity r = None"
  using C7_ethnicity_undefined by simp

text \<open>
  The eight extracted fields are defaulted with \<open>|| ""\<close> (lines 199-206) and are always
  strings.  \<open>directorName\<close> and \<open>accountantUrl\<close> are copied from the officers list and from
  the first search result as they are (lines 48 and 186): they are strings as long as the
  registry gives the director a name and the search gives its first result a URL.
\<close>

lemma extracted_fields_always_present:
  "afterLookups w k tr cd fd dn = (tr', Json r) \<Longrightarrow>
   totalAssets r \<noteq> None \<and> odla r \<noteq> None \<and> totalDeficiency r \<noteq> None \<and>
   bblCbils r \<noteq> None \<and> hmrcPreferential r \<noteq> None \<and> hmrcUnsecured r \<noteq> None \<and>
   tradeCreditors r \<noteq> None \<and> accountantFirmName r \<noteq> None"
  by (auto simp: afterLookups_def Let_def)

text \<open>
  C8, as amended.  In server.ts, once the three registry lookups have returned and no
  item of the filing history matches the insolvency predicate, the primary pass makes no
  call and extracts nothing, and the handler answers with a row whose seven figures are
  empty strings and whose \<open>accountantFirmName\<close> is what the fallback pass found, or the
  empty string.  In App.tsx, when the selection loop finds no link, \<open>handleExtract\<close> stops
  after the two registry lookups with the error
  \<open>No Statement of Affairs found in the filing history.\<close> and adds no row.
\<close>

theorem C8_no_insolvency_match:
  "(truthy companyNo \<and> truthy chApiKey \<and>
    fetchCompany w (orEmpty companyNo) (orEmpty chApiKey) = (tr1, Inr cd) \<and>
    fetchFilingHistory w (orEmpty companyNo) (orEmpty chApiKey) tr1 = (tr2, Inr fd) \<and>
    fetchOfficers w (orEmpty companyNo) (orEmpty chApiKey) tr2 = (tr3, Inr dn) \<and>
    (\<forall>x\<in>set (itemsOf fd). \<not> isSoa x)
    \<longrightarrow> primaryPass w (orEmpty chApiKey) tr3 (soaItem (itemsOf fd)) = (tr3, Map.empty) \<and>
        (\<exists>tr r. apiExtract w companyNo chApiKey = (tr, Json r) \<and>
           totalAssets r = Some [] \<and> odla r = Some [] \<and> totalDeficiency r = Some [] \<and>
           bblCbils r = Some [] \<and> hmrcPreferential r = Some [] \<and> hmrcUnsecured r = Some [] \<and>
           tradeCreditors r = Some [] \<and>
           accountantFirmName r =
             Some (orEmpty (snd (fallbackPass w (orEmpty chApiKey) (accountItems (itemsOf fd))
                                   (tr3, Map.empty)) ''accountantFirmName'')))) \<and>
   (appKey \<noteq> [] \<and> geminiApiKey \<noteq> [] \<and> appNo \<noteq> [] \<and>
    chCompany aw [detailsCall appNo appKey] = Inr detailsRes \<and> ok detailsRes \<and>
    body detailsRes = Inr details \<and>
    chFilingHistory aw [detailsCall appNo appKey, appHistoryCall appNo appKey] = Inr historyRes \<and>
    body historyRes = Inr history \<and>
    soaMetaLoop (itemsOf history) = None
    \<longrightarrow> handleExtract aw appKey geminiApiKey appNo rs =
          ([detailsCall appNo appKey, appHistoryCall appNo appKey],
           SetError ''Extraction Failed: No Statement of Affairs found in the filing history.''))"
proof (intro conjI impI)
  assume h: "truthy companyNo \<and> truthy chApiKey \<and>
    fetchCompany w (orEmpty companyNo) (orEmpty chApiKey) = (tr1, Inr cd) \<and>
    fetchFilingHistory w (orEmpty companyNo) (orEmpty chApiKey) tr1 = (tr2, Inr fd) \<and>
    fetchOfficers w (orEmpty companyNo) (orEmpty chApiKey) tr2 = (tr3, Inr dn) \<and>
    (\<forall>x\<in>set (itemsOf fd). \<not> isSoa x)"
  then have n: "soaItem (itemsOf fd) = None" by (simp add: soaItem_None)
  then show p: "primaryPass w (orEmpty chApiKey) tr3 (soaItem (itemsOf fd)) = (tr3, Map.empty)"
    by (simp add: primaryPass_def)
  from h have e: "apiExtract w companyNo chApiKey = afterLookups w (orEmpty chApiKey) tr3 cd fd dn"
    by (simp add: apiExtract_after_lookups)
  let ?f = "fallbackPass w (orEmpty chApiKey) (accountItems (itemsOf fd)) (tr3, Map.empty)"
  have fr: "\<And>f. f \<noteq> ''accountantFirmName'' \<Longrightarrow> snd ?f f = None"
    using fallbackPass_frame[of _ w "orEmpty chApiKey" "accountItems (itemsOf fd)" tr3 Map.empty] by simp
  have seven: "snd ?f ''totalAssets'' = None" "snd ?f ''odla'' = None" "snd ?f ''totalDeficiency'' = None"
    "snd ?f ''bblCbils'' = None" "snd ?f ''hmrcPreferential'' = None" "snd ?f ''hmrcUnsecured'' = None"
    "snd ?f ''tradeCreditors'' = None"
    by (simp_all add: fr)
  have "afterLookups w (orEmpty chApiKey) tr3 cd fd dn =
     (fst (webSearchStage w (fst (ethnicityStage w (fst ?f) dn)) (snd ?f)),
      Json \<lparr> companyName = company_name cd, companyNumber = company_number cd,
             directorName = dn, ethnicity = snd (ethnicityStage w (fst ?f) dn),
             totalAssets = Some [], odla = Some [], totalDeficiency = Some [],
             bblCbils = Some [], hmrcPreferential = Some [], hmrcUnsecured = Some [],
             tradeCreditors = Some [],
             accountantFirmName = Some (orEmpty (snd ?f ''accountantFirmName'')),
             accountantUrl = snd (webSearchStage w (fst (ethnicityStage w (fst ?f) dn)) (snd ?f)) \<rparr>)"
    using p by (simp add: afterLookups_def Let_def seven orEmpty_simps)
  with e show "\<exists>tr r. apiExtract w companyNo chApiKey = (tr, Json r) \<and>
           totalAssets r = Some [] \<and> odla r = Some [] \<and> totalDeficiency r = Some [] \<and>
           bblCbils r = Some [] \<and> hmrcPreferential r = Some [] \<and> hmrcUnsecured r = Some [] \<and>
           tradeCreditors r = Some [] \<and>
           accountantFirmName r = Some (orEmpty (snd ?f ''accountantFirmName''))"
    by simp
next
  assume "appKey \<noteq> [] \<and> geminiApiKey \<noteq> [] \<and> appNo \<noteq> [] \<and>
    chCompany aw [detailsCall appNo appKey] = Inr detailsRes \<and> ok detailsRes \<and>
    body detailsRes = Inr details \<and>
    chFilingHistory aw [detailsCall appNo appKey, appHistoryCall appNo appKey] = Inr historyRes \<and>
    body historyRes = Inr history \<and>
    soaMetaLoop (itemsOf history) = None"
  then show "handleExtract aw appKey geminiApiKey appNo rs =
          ([detailsCall appNo appKey, appHistoryCall appNo appKey],
           SetError ''Extraction Failed: No Statement of Affairs found in the filing history.'')"
    using handleExtract_no_soa by blast
qed

theorem C8_witness:
  "(\<exists>tr r. apiExtract exampleRegistry (Some ''11969947'') (Some ''key'') = (tr, Json r) \<and>
      totalAssets r = Some [] \<and> tradeCreditors r = Some [] \<and> accountantFirmName r = Some ''Jones LLP'') \<and>
   handleExtract (exampleApp [acc (Some ''doc/1'')]) ''key'' ''gkey'' ''11969947'' [] =
     ([Fetch ''/api/ch/company/11969947'' [Authorization ''key:''] follow,
       Fetch ''/api/ch/company/11969947/filing-history'' [Authorization ''key:''] follow],
      SetError ''Extraction Failed: No Statement of Affairs found in the filing history.'')"
proof -
  let ?fd = "\<lparr> items = Some [acc None, acc (Some ''doc/1''), acc (Some ''doc/3''), acc (Some ''doc/4'')] \<rparr>"
  have a: "truthy (Some ''11969947'') \<and> truthy (Some ''key'') \<and>
    fetchCompany exampleRegistry (orEmpty (Some ''11969947'')) (orEmpty (Some ''key'')) =
      ([profileCall ''11969947'' ''key''],
       Inr \<lparr> company_name = Some ''ACME LTD'', company_number = Some ''11969947'' \<rparr>) \<and>
    fetchFilingHistory exampleRegistry (orEmpty (Some ''11969947'')) (orEmpty (Some ''key''))
        [profileCall ''11969947'' ''key''] =
      ([profileCall ''11969947'' ''key''] @ [historyCall ''11969947'' ''key''], Inr ?fd) \<and>
    fetchOfficers exampleRegistry (orEmpty (Some ''11969947'')) (orEmpty (Some ''key''))
        ([profileCall ''11969947'' ''key''] @ [historyCall ''11969947'' ''key'']) =
      (([profileCall ''11969947'' ''key''] @ [historyCall ''11969947'' ''key'']) @
         [Fetch (registry @ ''/company/11969947/officers'') [Authorization ''key:''] follow],
       Inr (Some ''SMITH, John'')) \<and>
    (\<forall>x\<in>set (itemsOf ?fd). \<not> isSoa x)"
    by (simp add: truthy_def orEmpty_simps example_lookups itemsOf_def isSoa_def acc_def)
  have b: "''key'' \<noteq> [] \<and> ''gkey'' \<noteq> [] \<and> ''11969947'' \<noteq> [] \<and>
    chCompany (exampleApp [acc (Some ''doc/1'')]) [detailsCall ''11969947'' ''key'']
      = Inr (okResponse \<lparr> company_name = Some ''ACME LTD'', company_number = Some ''11969947'' \<rparr>) \<and>
    ok (okResponse \<lparr> company_name = Some ''ACME LTD'', company_number = Some ''11969947'' \<rparr>) \<and>
    body (okResponse \<lparr> company_name = Some ''ACME LTD'', company_number = Some ''11969947'' \<rparr>)
      = Inr \<lparr> company_name = Some ''ACME LTD'', company_number = Some ''11969947'' \<rparr> \<and>
    chFilingHistory (exampleApp [acc (Some ''doc/1'')])
        [detailsCall ''11969947'' ''key'', appHistoryCall ''11969947'' ''key'']
      = Inr (okResponse \<lparr> items = Some [acc (Some ''doc/1'')] \<rparr>) \<and>
    body (okResponse \<lparr> items = Some [acc (Some ''doc/1'')] \<rparr>) = Inr \<lparr> items = Some [acc (Some ''doc/1'')] \<rparr> \<and>
    soaMetaLoop (itemsOf \<lparr> items = Some [acc (Some ''doc/1'')] \<rparr>) = None"
    by (simp add: exampleApp_def okResponse_def ok_def itemsOf_def isSoaAlt_def acc_def truthy_def orEmpty_def)
  from C8_no_insolvency_match[THEN conjunct1, rule_format, OF a, THEN conjunct2]
  have "\<exists>tr r. apiExtract exampleRegistry (Some ''11969947'') (Some ''key'') = (tr, Json r) \<and>
      totalAssets r = Some [] \<and> tradeCreditors r = Some [] \<and> accountantFirmName r = Some ''Jones LLP''"
    by (auto simp: orEmpty_simps itemsOf_def example_stages)
  moreover
  from C8_no_insolvency_match[THEN conjunct2, rule_format, OF b, of "[]"]
  have "handleExtract (exampleApp [acc (Some ''doc/1'')]) ''key'' ''gkey'' ''11969947'' [] =
     ([Fetch ''/api/ch/company/11969947'' [Authorization ''key:''] follow,
       Fetch ''/api/ch/company/11969947/filing-history'' [Authorization ''key:''] follow],
      SetError ''Extraction Failed: No Statement of Affairs found in the filing history.'')"
    by (simp add: detailsCall_def appHistoryCall_def trim_def isSpace_def)
  ultimately show ?thesis by blast
qed

text \<open>
  The claim as stated fails on App.tsx: a history in which no item matches either
  predicate, and the empty history, end in the error and no row.
\<close>

theorem C8_counterexample:
  "\<not> isSoa (acc (Some ''doc/1'')) \<and> \<not> isSoaAlt (acc (Some ''doc/1'')) \<and>
   snd (handleExtract (exampleApp [acc (Some ''doc/1'')]) ''key'' ''gkey'' ''11969947'' []) =
     SetError ''Extraction Failed: No Statement of Affairs found in the filing history.'' \<and>
   snd (handleExtract (exampleApp []) ''key'' ''gkey'' ''11969947'' []) =
     SetError ''Extraction Failed: No Statement of Affairs found in the filing history.''"
  by (simp add: isSoa_def isSoaAlt_def acc_def truthy_def orEmpty_def
      handleExtract_def handleExtractTry_def exampleApp_def okResponse_def ok_def itemsOf_def Let_def)

section \<open>Candidates without a link\<close>

text \<open>Every stage only adds calls to the trace it is given.\<close>

lemma accCandidate_extends: "\<exists>ext. fst (accCandidate w k tr c) = tr @ ext"
  by (auto simp: accCandidate_def accTry_def downloadPdf_def Let_def
      split: option.splits prod.splits sum.splits if_splits)

lemma fallbackLoop_extends: "\<exists>ext. fst (fallbackLoop w k cs (tr, d)) = tr @ ext"
proof (induction cs arbitrary: tr)
  case Nil
  then show ?case by simp
next
  case (Cons a cs)
  obtain t r where a: "accCandidate w k tr a = (t, r)" by (cases "accCandidate w k tr a")
  from accCandidate_extends[of w k tr a] a obtain e1 where t: "t = tr @ e1" by auto
  show ?case
  proof (cases r)
    case None
    from Cons.IH[of t] obtain e2 where "fst (fallbackLoop w k cs (t, d)) = t @ e2" by blast
    then show ?thesis using a None t by simp
  next
    case (Some v)
    then show ?thesis using a t by simp
  qed
qed

lemma skip_linkless_prefix:
  "\<forall>x\<in>set pre. documentLink x = None \<Longrightarrow>
   fallbackLoop w k (pre @ rest) (tr, d) = fallbackLoop w k rest (tr, d)"
  by (induction pre) (auto simp: accCandidate_def)

lemma fallbackLoop_fetches_first_link:
  assumes "documentLink c = Some u"
  shows "\<exists>rest. fst (fallbackLoop w k (c # post) (tr, d)) =
           tr @ Fetch u [Authorization (k @ '':''), Accept ''application/pdf''] follow # rest"
proof -
  obtain t r where a: "accCandidate w k tr c = (t, r)" by (cases "accCandidate w k tr c")
  from accCandidate_fetches_link[OF assms, of w k tr] a obtain r0 where
    t: "t = tr @ Fetch u [Authorization (k @ '':''), Accept ''application/pdf''] follow # r0" by auto
  show ?thesis
  proof (cases r)
    case None
    from fallbackLoop_extends[of w k post t d] obtain e2 where
      "fst (fallbackLoop w k post (t, d)) = t @ e2" by blast
    then show ?thesis using a None t by simp
  next
    case (Some v)
    then show ?thesis using a t by simp
  qed
qed

lemma ethnicityStage_extends: "\<exists>ext. fst (ethnicityStage w tr dn) = tr @ ext"
  by (auto simp: ethnicityStage_def Let_def split: sum.splits)

lemma webSearchStage_extends: "\<exists>ext. fst (webSearchStage w tr ed) = tr @ ext"
  by (auto simp: webSearchStage_def Let_def split: sum.splits option.splits list.splits)

lemma ethnicityStage_calls:
  "truthy dn \<Longrightarrow>
   fst (ethnicityStage w tr dn) =
     tr @ [GenerateContent ''gemini-2.5-flash'' None (ethnicityPrompt (orEmpty dn)) [''ethnicity'']]"
  by (auto simp: ethnicityStage_def Let_def split: sum.splits)

lemma webSearchStage_calls:
  "truthy (ed ''accountantFirmName'') \<Longrightarrow>
   fst (webSearchStage w tr ed) = tr @ [Search (orEmpty (ed ''accountantFirmName'') @ '' UK'')]"
  by (auto simp: webSearchStage_def Let_def split: sum.splits option.splits list.splits)

lemma fallbackPass_from_empty:
  "accs \<noteq> [] \<Longrightarrow> fallbackPass w k accs (tr, Map.empty) = fallbackLoop w k accs (tr, Map.empty)"
  by (simp add: fallbackPass_def truthy_def)

text \<open>
  When the primary pass has done nothing, the row's seven figures are empty and the rest
  of the row is what the later stages make of the fallback pass.
\<close>

lemma afterLookups_without_primary:
  assumes p: "primaryPass w k tr (soaItem its) = (tr, Map.empty)"
  shows "afterLookups w k tr cd \<lparr> items = Some its \<rparr> dn =
     (fst (webSearchStage w
             (fst (ethnicityStage w (fst (fallbackPass w k (accountItems its) (tr, Map.empty))) dn))
             (snd (fallbackPass w k (accountItems its) (tr, Map.empty)))),
      Json \<lparr> companyName = company_name cd, companyNumber = company_number cd,
             directorName = dn,
             ethnicity = snd (ethnicityStage w (fst (fallbackPass w k (accountItems its) (tr, Map.empty))) dn),
             totalAssets = Some [], odla = Some [], totalDeficiency = Some [],
             bblCbils = Some [], hmrcPreferential = Some [], hmrcUnsecured = Some [],
             tradeCreditors = Some [],
             accountantFirmName =
               Some (orEmpty (snd (fallbackPass w k (accountItems its) (tr, Map.empty)) ''accountantFirmName'')),
             accountantUrl =
               snd (webSearchStage w
                      (fst (ethnicityStage w (fst (fallbackPass w k (accountItems its) (tr, Map.empty))) dn))
                      (snd (fallbackPass w k (accountItems its) (tr, Map.empty)))) \<rparr>)"
proof -
  let ?f = "fallbackPass w k (accountItems its) (tr, Map.empty)"
  have fr: "\<And>f. f \<noteq> ''accountantFirmName'' \<Longrightarrow> snd ?f f = None"
    using fallbackPass_frame[of _ w k "accountItems its" tr Map.empty] by simp
  have seven: "snd ?f ''totalAssets'' = None" "snd ?f ''odla'' = None" "snd ?f ''totalDeficiency'' = None"
    "snd ?f ''bblCbils'' = None" "snd ?f ''hmrcPreferential'' = None" "snd ?f ''hmrcUnsecured'' = None"
    "snd ?f ''tradeCreditors'' = None"
    by (simp_all add: fr)
  show ?thesis
    using p by (simp add: afterLookups_def Let_def itemsOf_def seven orEmpty_simps)
qed

text \<open>
  C10.  A candidate without a (non-empty) \<open>document_metadata\<close> link is passed over and is
  not a failure.

  In the fallback loop such a candidate makes no call and yields nothing, and the loop
  gives what it gives without it.  After any number of them, the first call of the loop is
  the download of the next candidate that has a link, made at the trace the loop started
  with, and the loop's outcome is that candidate's: its firm name if it yields one, the
  rest of the list after it otherwise.  A list of candidates none of which has a link
  leaves trace and data as they were.

  When the insolvency candidate has no link, the primary pass makes no call and extracts
  nothing, and the handler goes on: it answers with a row whose seven figures are empty,
  whose \<open>accountantFirmName\<close> is what the fallback pass finds and whose \<open>directorName\<close> is
  the one it was given; the demographic call for a director with a name is in its trace;
  and if some accounts candidate has a link, the first call after the lookups is the
  download of the first such candidate.
\<close>

theorem C10_linkless_candidate_skipped:
  "(documentLink c = None \<longrightarrow>
      accCandidate w k tr c = (tr, None) \<and>
      fallbackLoop w k (pre @ c # post) (tr, d) = fallbackLoop w k (pre @ post) (tr, d)) \<and>
   ((\<forall>x\<in>set skipped. documentLink x = None) \<and> documentLink c' = Some u \<longrightarrow>
      (\<exists>rest. fst (fallbackLoop w k (skipped @ c' # post') (tr, d)) =
         tr @ Fetch u [Authorization (k @ '':''), Accept ''application/pdf''] follow # rest) \<and>
      fallbackLoop w k (skipped @ c' # post') (tr, d) =
        (case accCandidate w k tr c' of
           (tr1, Some v) \<Rightarrow> (tr1, d(''accountantFirmName'' \<mapsto> v))
         | (tr1, None) \<Rightarrow> fallbackLoop w k post' (tr1, d))) \<and>
   ((\<forall>x\<in>set cs. documentLink x = None) \<longrightarrow> fallbackLoop w k cs (tr, d) = (tr, d)) \<and>
   (soaItem its = Some it \<and> documentLink it = None \<longrightarrow>
      primaryPass w k tr (soaItem its) = (tr, Map.empty) \<and>
      (\<exists>tr' r. afterLookups w k tr cd \<lparr> items = Some its \<rparr> dn = (tr', Json r) \<and>
         totalAssets r = Some [] \<and> odla r = Some [] \<and> totalDeficiency r = Some [] \<and>
         bblCbils r = Some [] \<and> hmrcPreferential r = Some [] \<and> hmrcUnsecured r = Some [] \<and>
         tradeCreditors r = Some [] \<and>
         accountantFirmName r =
           Some (orEmpty (snd (fallbackPass w k (accountItems its) (tr, Map.empty)) ''accountantFirmName'')) \<and>
         directorName r = dn \<and>
         (truthy dn \<longrightarrow>
            GenerateContent ''gemini-2.5-flash'' None (ethnicityPrompt (orEmpty dn)) [''ethnicity''] \<in> set tr') \<and>
         (\<forall>sk a ps l. accountItems its = sk @ a # ps \<and> (\<forall>x\<in>set sk. documentLink x = None) \<and>
              documentLink a = Some l \<longrightarrow>
            (\<exists>rest. tr' = tr @ Fetch l [Authorization (k @ '':''), Accept ''application/pdf''] follow # rest))))"
proof (intro conjI impI)
  assume "documentLink c = None"
  then show "accCandidate w k tr c = (tr, None)" by (simp add: accCandidate_def)
next
  assume "documentLink c = None"
  then show "fallbackLoop w k (pre @ c # post) (tr, d) = fallbackLoop w k (pre @ post) (tr, d)"
    by (rule skip_linkless)
next
  assume h: "(\<forall>x\<in>set skipped. documentLink x = None) \<and> documentLink c' = Some u"
  then have e: "fallbackLoop w k (skipped @ c' # post') (tr, d) = fallbackLoop w k (c' # post') (tr, d)"
    by (simp add: skip_linkless_prefix)
  from h have "\<exists>rest. fst (fallbackLoop w k (c' # post') (tr, d)) =
         tr @ Fetch u [Authorization (k @ '':''), Accept ''application/pdf''] follow # rest"
    by (simp only: fallbackLoop_fetches_first_link)
  then show "\<exists>rest. fst (fallbackLoop w k (skipped @ c' # post') (tr, d)) =
         tr @ Fetch u [Authorization (k @ '':''), Accept ''application/pdf''] follow # rest"
    unfolding e .
  show "fallbackLoop w k (skipped @ c' # post') (tr, d) =
        (case accCandidate w k tr c' of
           (tr1, Some v) \<Rightarrow> (tr1, d(''accountantFirmName'' \<mapsto> v))
         | (tr1, None) \<Rightarrow> fallbackLoop w k post' (tr1, d))"
    unfolding e by (simp split: prod.splits option.splits)
next
  assume "\<forall>x\<in>set cs. documentLink x = None"
  then show "fallbackLoop w k cs (tr, d) = (tr, d)"
    using skip_linkless_prefix[of cs w k "[]" tr d] by simp
next
  assume h: "soaItem its = Some it \<and> documentLink it = None"
  then show p: "primaryPass w k tr (soaItem its) = (tr, Map.empty)" by (simp add: primaryPass_def)
  let ?f = "fallbackPass w k (accountItems its) (tr, Map.empty)"
  let ?e = "ethnicityStage w (fst ?f) dn"
  let ?s = "webSearchStage w (fst ?e) (snd ?f)"
  note a = afterLookups_without_primary[OF p, of cd dn]
  obtain e2 where s: "fst ?s = fst ?e @ e2" using webSearchStage_extends by blast
  obtain e1 where e: "fst ?e = fst ?f @ e1" using ethnicityStage_extends by blast
  have eth: "truthy dn \<longrightarrow>
      GenerateContent ''gemini-2.5-flash'' None (ethnicityPrompt (orEmpty dn)) [''ethnicity''] \<in> set (fst ?s)"
  proof
    assume "truthy dn"
    then have "fst ?e = fst ?f @ [GenerateContent ''gemini-2.5-flash'' None (ethnicityPrompt (orEmpty dn)) [''ethnicity'']]"
      by (rule ethnicityStage_calls)
    with s have "fst ?s = (fst ?f @ [GenerateContent ''gemini-2.5-flash'' None (ethnicityPrompt (orEmpty dn)) [''ethnicity'']]) @ e2"
      by (simp only:)
    then show "GenerateContent ''gemini-2.5-flash'' None (ethnicityPrompt (orEmpty dn)) [''ethnicity''] \<in> set (fst ?s)"
      by (simp only: set_append) simp
  qed
  have fetch: "\<forall>sk a ps l. accountItems its = sk @ a # ps \<and> (\<forall>x\<in>set sk. documentLink x = None) \<and>
              documentLink a = Some l \<longrightarrow>
            (\<exists>rest. fst ?s = tr @ Fetch l [Authorization (k @ '':''), Accept ''application/pdf''] follow # rest)"
  proof (intro allI impI)
    fix sk a ps l
    assume g: "accountItems its = sk @ a # ps \<and> (\<forall>x\<in>set sk. documentLink x = None) \<and>
              documentLink a = Some l"
    then have "?f = fallbackLoop w k (sk @ a # ps) (tr, Map.empty)"
      by (simp add: fallbackPass_from_empty)
    also have "\<dots> = fallbackLoop w k (a # ps) (tr, Map.empty)"
      using g by (simp add: skip_linkless_prefix)
    finally have "?f = fallbackLoop w k (a # ps) (tr, Map.empty)" .
    moreover from g fallbackLoop_fetches_first_link[of a l w k ps tr Map.empty] obtain r0 where
      "fst (fallbackLoop w k (a # ps) (tr, Map.empty)) =
         tr @ Fetch l [Authorization (k @ '':''), Accept ''application/pdf''] follow # r0" by blast
    ultimately have "fst ?s = tr @ Fetch l [Authorization (k @ '':''), Accept ''application/pdf''] follow # (r0 @ e1 @ e2)"
      using s e by simp
    then show "\<exists>rest. fst ?s = tr @ Fetch l [Authorization (k @ '':''), Accept ''application/pdf''] follow # rest"
      by blast
  qed
  from a eth fetch
  show "\<exists>tr' r. afterLookups w k tr cd \<lparr> items = Some its \<rparr> dn = (tr', Json r) \<and>
         totalAssets r = Some [] \<and> odla r = Some [] \<and> totalDeficiency r = Some [] \<and>
         bblCbils r = Some [] \<and> hmrcPreferential r = Some [] \<and> hmrcUnsecured r = Some [] \<and>
         tradeCreditors r = Some [] \<and>
         accountantFirmName r =
           Some (orEmpty (snd (fallbackPass w k (accountItems its) (tr, Map.empty)) ''accountantFirmName'')) \<and>
         directorName r = dn \<and>
         (truthy dn \<longrightarrow>
            GenerateContent ''gemini-2.5-flash'' None (ethnicityPrompt (orEmpty dn)) [''ethnicity''] \<in> set tr') \<and>
         (\<forall>sk a ps l. accountItems its = sk @ a # ps \<and> (\<forall>x\<in>set sk. documentLink x = None) \<and>
              documentLink a = Some l \<longrightarrow>
            (\<exists>rest. tr' = tr @ Fetch l [Authorization (k @ '':''), Accept ''application/pdf''] follow # rest))"
    by simp
qed

theorem C10_witness:
  "fallbackLoop exampleWorld ''key''
     ([acc None, acc (Some [])] @ acc (Some ''doc/3'') # [acc (Some ''doc/4'')]) ([], Map.empty)
     = ([Fetch ''doc/3'' [Authorization ''key:'', Accept ''application/pdf''] follow,
         GenerateContent ''gemini-2.5-flash'' (Some ''doc/3'') accPrompt [''accountantFirmName'']],
        [''accountantFirmName'' \<mapsto> ''Jones LLP'']) \<and>
   fallbackLoop exampleWorld ''key'' [acc None, acc (Some [])] ([], [''odla'' \<mapsto> ''5'']) = ([], [''odla'' \<mapsto> ''5'']) \<and>
   afterLookups exampleWorld ''key'' []
       \<lparr> company_name = Some ''ACME LTD'', company_number = Some ''11969947'' \<rparr>
       \<lparr> items = Some [soa None, acc None, acc (Some ''doc/3''), soa (Some ''doc/5'')] \<rparr>
       (Some ''SMITH, John'')
     = ([Fetch ''doc/3'' [Authorization ''key:'', Accept ''application/pdf''] follow,
         GenerateContent ''gemini-2.5-flash'' (Some ''doc/3'') accPrompt [''accountantFirmName''],
         GenerateContent ''gemini-2.5-flash'' None (ethnicityPrompt ''SMITH, John'') [''ethnicity''],
         Search ''Jones LLP UK''],
        Json \<lparr> companyName = Some ''ACME LTD'', companyNumber = Some ''11969947'',
               directorName = Some ''SMITH, John'', ethnicity = None,
               totalAssets = Some [], odla = Some [], totalDeficiency = Some [],
               bblCbils = Some [], hmrcPreferential = Some [], hmrcUnsecured = Some [],
               tradeCreditors = Some [], accountantFirmName = Some ''Jones LLP'',
               accountantUrl = Some ''https://jones.example'' \<rparr>)"
proof -
  let ?its = "[soa None, acc None, acc (Some ''doc/3''), soa (Some ''doc/5'')]"
  let ?t2 = "[Fetch ''doc/3'' [Authorization ''key:'', Accept ''application/pdf''] follow,
         GenerateContent ''gemini-2.5-flash'' (Some ''doc/3'') accPrompt [''accountantFirmName'']]"
  have a: "(\<forall>x\<in>set [acc None, acc (Some [])]. documentLink x = None) \<and>
           documentLink (acc (Some ''doc/3'')) = Some ''doc/3''"
    by (simp add: documentLink_def acc_def)
  have b: "\<forall>x\<in>set [acc None, acc (Some [])]. documentLink x = None"
    by (simp add: documentLink_def acc_def)
  have c: "soaItem ?its = Some (soa None) \<and> documentLink (soa None) = None"
    by (simp add: soaItem_def isSoa_def documentLink_def soa_def)
  have cand: "accCandidate exampleWorld ''key'' [] (acc (Some ''doc/3'')) = (?t2, Some ''Jones LLP'')"
    by (simp add: exampleWorld_def acc_def accCandidate_def accTry_def downloadPdf_def
      documentLink_def okResponse_def ok_def parseText_def truthy_def Let_def)
  have one: "fallbackLoop exampleWorld ''key''
     ([acc None, acc (Some [])] @ acc (Some ''doc/3'') # [acc (Some ''doc/4'')]) ([], Map.empty)
     = (?t2, [''accountantFirmName'' \<mapsto> ''Jones LLP''])"
    using C10_linkless_candidate_skipped[THEN conjunct2, THEN conjunct1, THEN mp, OF a, THEN conjunct2,
        of exampleWorld "''key''" "[acc (Some ''doc/4'')]" "[]" Map.empty]
    by (simp only: cand prod.case option.case)
  have two: "fallbackLoop exampleWorld ''key'' [acc None, acc (Some [])] ([], [''odla'' \<mapsto> ''5'']) = ([], [''odla'' \<mapsto> ''5''])"
    by (rule C10_linkless_candidate_skipped[THEN conjunct2, THEN conjunct2, THEN conjunct1, THEN mp, OF b])
  have p: "primaryPass exampleWorld ''key'' [] (soaItem ?its) = ([], Map.empty)"
    by (rule C10_linkless_candidate_skipped[THEN conjunct2, THEN conjunct2, THEN conjunct2, THEN mp, OF c, THEN conjunct1])
  have accs: "accountItems ?its = [acc None, acc (Some ''doc/3'')]"
    by (simp add: accountItems_def acc_def soa_def)
  have f: "fallbackPass exampleWorld ''key'' [acc None, acc (Some ''doc/3'')] ([], Map.empty)
           = (?t2, [''accountantFirmName'' \<mapsto> ''Jones LLP''])"
    by (simp add: fallbackPass_def exampleWorld_def acc_def accCandidate_def accTry_def downloadPdf_def
      documentLink_def okResponse_def ok_def parseText_def truthy_def Let_def)
  let ?t3 = "[Fetch ''doc/3'' [Authorization ''key:'', Accept ''application/pdf''] follow,
         GenerateContent ''gemini-2.5-flash'' (Some ''doc/3'') accPrompt [''accountantFirmName''],
         GenerateContent ''gemini-2.5-flash'' None (ethnicityPrompt ''SMITH, John'') [''ethnicity'']]"
  let ?t4 = "[Fetch ''doc/3'' [Authorization ''key:'', Accept ''application/pdf''] follow,
         GenerateContent ''gemini-2.5-flash'' (Some ''doc/3'') accPrompt [''accountantFirmName''],
         GenerateContent ''gemini-2.5-flash'' None (ethnicityPrompt ''SMITH, John'') [''ethnicity''],
         Search ''Jones LLP UK'']"
  have e: "ethnicityStage exampleWorld ?t2 (Some ''SMITH, John'') = (?t3, None)"
    by (simp add: ethnicityStage_def exampleWorld_def parseText_def truthy_def orEmpty_simps Let_def)
  have s: "webSearchStage exampleWorld ?t3 [''accountantFirmName'' \<mapsto> ''Jones LLP'']
           = (?t4, Some ''https://jones.example'')"
    by (simp add: webSearchStage_def exampleWorld_def truthy_def orEmpty_simps Let_def)
  have three: "afterLookups exampleWorld ''key'' []
       \<lparr> company_name = Some ''ACME LTD'', company_number = Some ''11969947'' \<rparr>
       \<lparr> items = Some ?its \<rparr> (Some ''SMITH, John'')
     = (?t4,
        Json \<lparr> companyName = Some ''ACME LTD'', companyNumber = Some ''11969947'',
               directorName = Some ''SMITH, John'', ethnicity = None,
               totalAssets = Some [], odla = Some [], totalDeficiency = Some [],
               bblCbils = Some [], hmrcPreferential = Some [], hmrcUnsecured = Some [],
               tradeCreditors = Some [], accountantFirmName = Some ''Jones LLP'',
               accountantUrl = Some ''https://jones.example'' \<rparr>)"
    using p by (simp add: afterLookups_def Let_def itemsOf_def accs f e s orEmpty_simps)
  from one two three show ?thesis by simp
qed

section \<open>Properties of the document fetchers\<close>

lemma downloadPdf_one_call:
  "fst (downloadPdf w k tr u) = tr @ [Fetch u [Authorization (k @ '':''), Accept ''application/pdf''] follow]"
  by (simp add: downloadPdf_def Let_def split: sum.splits)

text \<open>
  C3, as amended.  In the ch-pdf-proxy middleware, when the document endpoint answers
  with a status in 300-399 and a non-empty \<open>Location\<close> header \<open>X\<close>, the proxy makes exactly
  three requests: the metadata request and the document request, both with the
  credential, and a last request to exactly \<open>X\<close> with no header at all.
\<close>

theorem C3_redirect_target_unauthenticated:
  "truthy targetUrl \<and> truthy apiKey \<and>
   metadataEndpoint pw [Fetch (orEmpty targetUrl) [Authorization (trim (orEmpty apiKey) @ '':'')] follow]
     = Inr metaRes \<and>
   body metaRes = Inr meta \<and> metaDocument meta = Some docUrlLocal \<and>
   docEndpoint pw [Fetch (orEmpty targetUrl) [Authorization (trim (orEmpty apiKey) @ '':'')] follow,
                   Fetch docUrlLocal [Authorization (trim (orEmpty apiKey) @ '':'')] manual]
     = Inr docRes \<and>
   300 \<le> status docRes \<and> status docRes < 400 \<and> location docRes = Some X \<and> X \<noteq> []
   \<longrightarrow> fst (pdfProxy pw targetUrl apiKey) =
         [Fetch (orEmpty targetUrl) [Authorization (trim (orEmpty apiKey) @ '':'')] follow,
          Fetch docUrlLocal [Authorization (trim (orEmpty apiKey) @ '':'')] manual,
          Fetch X [] follow]"
  by (simp add: pdfProxy_def s3Url_def truthy_def orEmpty_simps Let_def split: sum.splits)

theorem C3_witness:
  "fst (pdfProxy (exampleProxy (redirectTo 302 ''Found'' (Some ''https://s3.example/doc1'')))
         (Some ''https://reg/document/1'') (Some '' key '')) =
     [Fetch ''https://reg/document/1'' [Authorization ''key:''] follow,
      Fetch ''https://reg/document/1/content'' [Authorization ''key:''] manual,
      Fetch ''https://s3.example/doc1'' [] follow]"
proof -
  let ?pw = "exampleProxy (redirectTo 302 ''Found'' (Some ''https://s3.example/doc1''))"
  let ?meta = "\<lparr> meta_links = Some \<lparr> document = Some ''https://reg/document/1/content'' \<rparr> \<rparr>"
  have t: "trim '' key '' = ''key''" by (simp add: trim_def isSpace_def)
  have a: "truthy (Some ''https://reg/document/1'') \<and> truthy (Some '' key '') \<and>
    metadataEndpoint ?pw [Fetch (orEmpty (Some ''https://reg/document/1''))
        [Authorization (trim (orEmpty (Some '' key '')) @ '':'')] follow] = Inr (okResponse ?meta) \<and>
    body (okResponse ?meta) = Inr ?meta \<and>
    metaDocument ?meta = Some ''https://reg/document/1/content'' \<and>
    docEndpoint ?pw [Fetch (orEmpty (Some ''https://reg/document/1''))
        [Authorization (trim (orEmpty (Some '' key '')) @ '':'')] follow,
      Fetch ''https://reg/document/1/content'' [Authorization (trim (orEmpty (Some '' key '')) @ '':'')] manual]
      = Inr (redirectTo 302 ''Found'' (Some ''https://s3.example/doc1'')) \<and>
    300 \<le> status (redirectTo 302 ''Found'' (Some ''https://s3.example/doc1'')) \<and>
    status (redirectTo 302 ''Found'' (Some ''https://s3.example/doc1'')) < 400 \<and>
    location (redirectTo 302 ''Found'' (Some ''https://s3.example/doc1'')) = Some ''https://s3.example/doc1'' \<and>
    ''https://s3.example/doc1'' \<noteq> []"
    by (simp add: truthy_def exampleProxy_def okResponse_def metaDocument_def redirectTo_def)
  from C3_redirect_target_unauthenticated[rule_format, OF a]
  show ?thesis by (simp add: orEmpty_simps t)
qed

text \<open>
  The claim as stated fails twice.  The proxy, answered 302 with an empty \<open>Location\<close>
  header, sends its last request to the document URL, not to the header's value.
  \<open>downloadPdf\<close> of server.ts, answered 300 with a \<open>Location\<close> header, makes no second
  request and throws; by \<open>downloadPdf_one_call\<close> its one request carries the credential
  and leaves every redirect to \<open>fetch\<close>.
\<close>

theorem C3_counterexample:
  "downloadPdf multipleChoices ''key'' [] ''https://reg/document/1'' =
     ([Fetch ''https://reg/document/1'' [Authorization ''key:'', Accept ''application/pdf''] follow],
      Inl ''Failed to download PDF: Multiple Choices'') \<and>
   fst (pdfProxy (exampleProxy (redirectTo 302 ''Found'' (Some [])))
         (Some ''https://reg/document/1'') (Some ''key'')) =
     [Fetch ''https://reg/document/1'' [Authorization ''key:''] follow,
      Fetch ''https://reg/document/1/content'' [Authorization ''key:''] manual,
      Fetch ''https://reg/document/1/content'' [] follow]"
  by (simp add: downloadPdf_def multipleChoices_def exampleWorld_def redirectTo_def ok_def
      pdfProxy_def exampleProxy_def okResponse_def metaDocument_def s3Url_def truthy_def
      orEmpty_def trim_def isSpace_def Let_def)

text \<open>
  C4, as amended.  In the ch-pdf-proxy middleware, when the document endpoint answers
  with a status in 300-399 and no (or an empty) \<open>Location\<close> header, the proxy sends its last
  request, without the credential, to the document URL it read from the metadata
  (\<open>meta.links.document\<close>, the URL of the request that was answered 3xx), and when that
  request is answered and its body can be read, the proxy returns this body.
\<close>

theorem C4_redirect_without_location:
  "truthy targetUrl \<and> truthy apiKey \<and>
   metadataEndpoint pw [Fetch (orEmpty targetUrl) [Authorization (trim (orEmpty apiKey) @ '':'')] follow]
     = Inr metaRes \<and>
   body metaRes = Inr meta \<and> metaDocument meta = Some docUrlLocal \<and>
   docEndpoint pw [Fetch (orEmpty targetUrl) [Authorization (trim (orEmpty apiKey) @ '':'')] follow,
                   Fetch docUrlLocal [Authorization (trim (orEmpty apiKey) @ '':'')] manual]
     = Inr docRes \<and>
   300 \<le> status docRes \<and> status docRes < 400 \<and> \<not> truthy (location docRes)
   \<longrightarrow> fst (pdfProxy pw targetUrl apiKey) =
         [Fetch (orEmpty targetUrl) [Authorization (trim (orEmpty apiKey) @ '':'')] follow,
          Fetch docUrlLocal [Authorization (trim (orEmpty apiKey) @ '':'')] manual,
          Fetch docUrlLocal [] follow] \<and>
       (\<forall>s3Res b.
          storageEndpoint pw
            [Fetch (orEmpty targetUrl) [Authorization (trim (orEmpty apiKey) @ '':'')] follow,
             Fetch docUrlLocal [Authorization (trim (orEmpty apiKey) @ '':'')] manual,
             Fetch docUrlLocal [] follow] = Inr s3Res \<and> body s3Res = Inr b
          \<longrightarrow> snd (pdfProxy pw targetUrl apiKey) = ProxySuccess b)"
  by (simp add: pdfProxy_def s3Url_def Let_def split: sum.splits)

theorem C4_witness:
  "pdfProxy (exampleProxy (redirectTo 307 ''Temporary Redirect'' (Some [])))
         (Some ''https://reg/document/1'') (Some ''key'') =
     ([Fetch ''https://reg/document/1'' [Authorization ''key:''] follow,
       Fetch ''https://reg/document/1/content'' [Authorization ''key:''] manual,
       Fetch ''https://reg/document/1/content'' [] follow],
      ProxySuccess ''bytes of https://reg/document/1/content'')"
proof -
  let ?r = "redirectTo 307 ''Temporary Redirect'' (Some [])"
  let ?pw = "exampleProxy ?r"
  let ?meta = "\<lparr> meta_links = Some \<lparr> document = Some ''https://reg/document/1/content'' \<rparr> \<rparr>"
  let ?tr = "[Fetch ''https://reg/document/1'' [Authorization ''key:''] follow,
       Fetch ''https://reg/document/1/content'' [Authorization ''key:''] manual,
       Fetch ''https://reg/document/1/content'' [] follow]"
  have t: "trim ''key'' = ''key''" by (simp add: trim_def isSpace_def)
  have a: "truthy (Some ''https://reg/document/1'') \<and> truthy (Some ''key'') \<and>
    metadataEndpoint ?pw [Fetch (orEmpty (Some ''https://reg/document/1''))
        [Authorization (trim (orEmpty (Some ''key'')) @ '':'')] follow] = Inr (okResponse ?meta) \<and>
    body (okResponse ?meta) = Inr ?meta \<and>
    metaDocument ?meta = Some ''https://reg/document/1/content'' \<and>
    docEndpoint ?pw [Fetch (orEmpty (Some ''https://reg/document/1''))
        [Authorization (trim (orEmpty (Some ''key'')) @ '':'')] follow,
      Fetch ''https://reg/document/1/content'' [Authorization (trim (orEmpty (Some ''key'')) @ '':'')] manual]
      = Inr ?r \<and>
    300 \<le> status ?r \<and> status ?r < 400 \<and> \<not> truthy (location ?r)"
    by (simp add: truthy_def exampleProxy_def okResponse_def metaDocument_def redirectTo_def)
  have b: "storageEndpoint ?pw
      [Fetch (orEmpty (Some ''https://reg/document/1''))
         [Authorization (trim (orEmpty (Some ''key'')) @ '':'')] follow,
       Fetch ''https://reg/document/1/content'' [Authorization (trim (orEmpty (Some ''key'')) @ '':'')] manual,
       Fetch ''https://reg/document/1/content'' [] follow]
      = Inr (okResponse ''bytes of https://reg/document/1/content'') \<and>
    body (okResponse ''bytes of https://reg/document/1/content'') = Inr ''bytes of https://reg/document/1/content''"
    by (simp add: exampleProxy_def okResponse_def)
  note c = C4_redirect_without_location[rule_format, OF a]
  from c[THEN conjunct1] c[THEN conjunct2, rule_format, OF b]
  show ?thesis by (simp add: prod_eq_iff orEmpty_simps t)
qed

text \<open>
  The claim as stated names the URL the caller supplied as the target of the retry.  The
  retry goes to the document URL of the metadata, which is another URL.
\<close>

theorem C4_counterexample:
  "fst (pdfProxy (exampleProxy (redirectTo 302 ''Found'' None))
         (Some ''https://reg/document/1'') (Some ''key'')) =
     [Fetch ''https://reg/document/1'' [Authorization ''key:''] follow,
      Fetch ''https://reg/document/1/content'' [Authorization ''key:''] manual,
      Fetch ''https://reg/document/1/content'' [] follow] \<and>
   ''https://reg/document/1/content'' \<noteq> ''https://reg/document/1''"
  by (simp add: pdfProxy_def exampleProxy_def okResponse_def metaDocument_def s3Url_def truthy_def
      redirectTo_def orEmpty_def trim_def isSpace_def Let_def)

end
